theory Spec2Isabelle
  imports Complex_Main "HOL-Library.Product_Lexorder"
begin

section \<open>Embedding of the PDF heading extractor (src/1a.py)\<close>

text \<open>
  Conventions of the embedding.
  \<^item> Python floats are idealised as rationals (\<open>rat\<close>): every comparison and every
    arithmetic step of the source is kept, the rounding of binary floating point is not
    modelled (\<open>round(x, 2)\<close> rounds the exact value, half to even).
  \<^item> A Python \<open>str\<close> is a \<open>string\<close>; each \<open>char\<close> stands for one code point of the range
    0 to 255, and the character classes (\<open>isupper\<close>, \<open>isspace\<close>, \<open>\<bsol>s\<close>, \<open>\<bsol>w\<close>, ...) are
    those of Python on that range.
  \<^item> A dictionary with a fixed set of keys is a record; a key that may be absent is an
    \<open>option\<close> field.
  \<^item> An exception is a value \<open>Inl e\<close> of a sum type; where the state mutated before the
    exception matters, the function returns the state together with \<open>Some e\<close>.
\<close>

subsection \<open>Characters and the string methods the source calls\<close>

text \<open>The classes \<open>\<bsol>d\<close> and \<open>[0-9]\<close>: the ten ASCII digits.\<close>

definition is_digit :: "char \<Rightarrow> bool" where
  "is_digit c = (let n = (of_char c :: nat) in 48 \<le> n \<and> n \<le> 57)"

text \<open>
  The regular expression classes \<open>[A-Z]\<close>, \<open>[a-z]\<close> and \<open>[a-zA-Z]\<close>. Under
  \<open>re.IGNORECASE\<close> the first two both are \<open>[a-zA-Z]\<close>: no other character of the range
  has its other case among the ASCII letters.
\<close>

definition is_ascii_upper :: "char \<Rightarrow> bool" where
  "is_ascii_upper c = (let n = (of_char c :: nat) in 65 \<le> n \<and> n \<le> 90)"

definition is_ascii_lower :: "char \<Rightarrow> bool" where
  "is_ascii_lower c = (let n = (of_char c :: nat) in 97 \<le> n \<and> n \<le> 122)"

definition is_ascii_letter :: "char \<Rightarrow> bool" where
  "is_ascii_letter c = (is_ascii_upper c \<or> is_ascii_lower c)"

text \<open>
  \<open>str.isupper\<close> and \<open>str.islower\<close> on one character: the ASCII letters, the capitals
  U+00C0 to U+00DE but the multiplication sign U+00D7, and the small letters U+00DF to
  U+00FF but the division sign U+00F7, with the ordinal indicators U+00AA, U+00BA and the
  micro sign U+00B5.
\<close>

definition is_upper :: "char \<Rightarrow> bool" where
  "is_upper c = (let n = (of_char c :: nat)
                 in (65 \<le> n \<and> n \<le> 90) \<or> (192 \<le> n \<and> n \<le> 214) \<or> (216 \<le> n \<and> n \<le> 222))"

definition is_lower :: "char \<Rightarrow> bool" where
  "is_lower c = (let n = (of_char c :: nat)
                 in (97 \<le> n \<and> n \<le> 122) \<or> (223 \<le> n \<and> n \<le> 246) \<or> (248 \<le> n \<and> n \<le> 255) \<or>
                    n = 170 \<or> n = 181 \<or> n = 186)"

text \<open>
  \<open>str.isspace\<close> and the class \<open>\<bsol>s\<close>: tab, LF, VT, FF, CR, FS, GS, RS, US, space, NEL
  (U+0085) and the no-break space (U+00A0).
\<close>

definition is_space :: "char \<Rightarrow> bool" where
  "is_space c = (let n = (of_char c :: nat)
                 in (9 \<le> n \<and> n \<le> 13) \<or> (28 \<le> n \<and> n \<le> 32) \<or> n = 133 \<or> n = 160)"

text \<open>
  The class \<open>\<bsol>w\<close>: the underscore and what \<open>str.isalnum\<close> accepts, that is the cased
  letters above, the ASCII digits, and the numeric characters U+00B2, U+00B3, U+00B9,
  U+00BC, U+00BD and U+00BE.
\<close>

definition is_word :: "char \<Rightarrow> bool" where
  "is_word c = (let n = (of_char c :: nat)
                in is_upper c \<or> is_lower c \<or> is_digit c \<or> c = CHR ''_'' \<or>
                   n = 178 \<or> n = 179 \<or> n = 185 \<or> (188 \<le> n \<and> n \<le> 190))"

text \<open>\<open>str.lower\<close> on a character: an uppercase letter gets bit 5 set (its code plus 32).\<close>

definition to_lower :: "char \<Rightarrow> char" where
  "to_lower c =
     (if is_upper c
      then (case c of Char b0 b1 b2 b3 b4 b5 b6 b7 \<Rightarrow> Char b0 b1 b2 b3 b4 True b6 b7)
      else c)"

definition lower :: "string \<Rightarrow> string" where
  "lower s = map to_lower s"

definition strip :: "string \<Rightarrow> string" where
  "strip s = rev (dropWhile is_space (rev (dropWhile is_space s)))"

text \<open>\<open>str.split()\<close> with no argument: the maximal runs of non-whitespace characters.\<close>

fun split_acc :: "string \<Rightarrow> string \<Rightarrow> string list" where
  "split_acc w [] = (if w = [] then [] else [rev w])"
| "split_acc w (c # cs) =
     (if is_space c then (if w = [] then split_acc [] cs else rev w # split_acc [] cs)
      else split_acc (c # w) cs)"

definition split :: "string \<Rightarrow> string list" where
  "split s = split_acc [] s"

text \<open>\<open>" ".join(parts)\<close>.\<close>

fun join_sp :: "string list \<Rightarrow> string" where
  "join_sp [] = []"
| "join_sp [x] = x"
| "join_sp (x # y # ys) = x @ '' '' @ join_sp (y # ys)"

text \<open>\<open>str.endswith\<close> for a one-character suffix.\<close>

definition endswith :: "string \<Rightarrow> char \<Rightarrow> bool" where
  "endswith s c = (s \<noteq> [] \<and> last s = c)"

text \<open>\<open>keyword in text\<close>: substring test.\<close>

fun is_prefix :: "string \<Rightarrow> string \<Rightarrow> bool" where
  "is_prefix [] s = True"
| "is_prefix (k # ks) [] = False"
| "is_prefix (k # ks) (c # cs) = (k = c \<and> is_prefix ks cs)"

fun contains :: "string \<Rightarrow> string \<Rightarrow> bool" where
  "contains k [] = (k = [])"
| "contains k (c # cs) = (is_prefix k (c # cs) \<or> contains k cs)"

text \<open>
  \<open>str.istitle()\<close>: an uppercase character may only follow an uncased one, a lowercase
  character only a cased one, and there is at least one cased character. The first
  argument is "the previous character is cased", the second "a cased character was seen".
\<close>

fun istitle_loop :: "bool \<Rightarrow> bool \<Rightarrow> string \<Rightarrow> bool" where
  "istitle_loop prev cased [] = cased"
| "istitle_loop prev cased (c # cs) =
     (if is_upper c then (if prev then False else istitle_loop True True cs)
      else if is_lower c then (if \<not> prev then False else istitle_loop True True cs)
      else istitle_loop False cased cs)"

definition istitle :: "string \<Rightarrow> bool" where
  "istitle s = istitle_loop False False s"

subsection \<open>Regular expressions\<close>

text \<open>
  The patterns of the source are written as terms of \<open>rx\<close>; \<open>ends r s\<close> lists the
  remainders of \<open>s\<close> after every way \<open>r\<close> can match a prefix of it, so that a pattern
  matches at the start of \<open>s\<close> exactly when \<open>ends r s\<close> is not empty. \<open>Eol\<close> is \<open>$\<close>:
  the end of the string, or just before a newline that ends the string.
\<close>

datatype rx = Cls "char \<Rightarrow> bool" | Eps | Eol | Seq rx rx | Alt rx rx | Star rx

fun ends :: "rx \<Rightarrow> string \<Rightarrow> string list" where
  "ends (Cls p) s = (case s of [] \<Rightarrow> [] | c # cs \<Rightarrow> if p c then [cs] else [])"
| "ends Eps s = [s]"
| "ends Eol s = (if s = [] \<or> s = [CHR 0x0A] then [s] else [])"
| "ends (Seq a b) s = concat (map (ends b) (ends a s))"
| "ends (Alt a b) s = ends a s @ ends b s"
| "ends (Star a) s =
     s # concat (map (ends (Star a)) (filter (\<lambda>t. length t < length s) (ends a s)))"

definition Plus :: "rx \<Rightarrow> rx" where
  "Plus r = Seq r (Star r)"

definition Opt :: "rx \<Rightarrow> rx" where
  "Opt r = Alt r Eps"

text \<open>A literal character, case-sensitive and under \<open>re.IGNORECASE\<close>.\<close>

definition Lit :: "char \<Rightarrow> rx" where
  "Lit x = Cls (\<lambda>c. c = x)"

definition LitI :: "char \<Rightarrow> rx" where
  "LitI x = Cls (\<lambda>c. to_lower c = to_lower x)"

fun seqs :: "rx list \<Rightarrow> rx" where
  "seqs [] = Eps"
| "seqs [r] = r"
| "seqs (r # rs) = Seq r (seqs rs)"

fun alts :: "rx list \<Rightarrow> rx" where
  "alts [] = Cls (\<lambda>c. False)"
| "alts [r] = r"
| "alts (r # rs) = Alt r (alts rs)"

definition StrI :: "string \<Rightarrow> rx" where
  "StrI s = seqs (map LitI s)"

text \<open>\<open>.\<close> (any character but a newline), \<open>\<bsol>s\<close>, \<open>\<bsol>d\<close>, \<open>\<bsol>w\<close>, and a set of characters.\<close>

definition Dot :: rx where "Dot = Cls (\<lambda>c. c \<noteq> CHR 0x0A)"
definition Sp :: rx where "Sp = Cls is_space"
definition Dg :: rx where "Dg = Cls is_digit"
definition Wd :: rx where "Wd = Cls is_word"
definition Letter :: rx where "Letter = Cls is_ascii_letter"
definition OneOf :: "string \<Rightarrow> rx" where "OneOf cs = Cls (\<lambda>c. c \<in> set cs)"
definition OneOfI :: "string \<Rightarrow> rx" where "OneOfI cs = Cls (\<lambda>c. to_lower c \<in> set (lower cs))"

text \<open>
  A compiled pattern: \<open>Anchored r\<close> is a pattern written with a leading \<open>^\<close>, \<open>Floating r\<close>
  one written without. \<open>re_match\<close> is \<open>pattern.match(s)\<close> (at the start of \<open>s\<close>) and
  \<open>re_search\<close> is \<open>pattern.search(s)\<close> (at any position; \<open>^\<close> only at the start, as no
  pattern is compiled with \<open>re.MULTILINE\<close>), both read as truth values.
\<close>

datatype pat = Anchored rx | Floating rx

fun pat_rx :: "pat \<Rightarrow> rx" where
  "pat_rx (Anchored r) = r"
| "pat_rx (Floating r) = r"

definition re_match :: "pat \<Rightarrow> string \<Rightarrow> bool" where
  "re_match p s = (ends (pat_rx p) s \<noteq> [])"

fun search_from :: "rx \<Rightarrow> string \<Rightarrow> bool" where
  "search_from r [] = (ends r [] \<noteq> [])"
| "search_from r (c # cs) = (ends r (c # cs) \<noteq> [] \<or> search_from r cs)"

fun re_search :: "pat \<Rightarrow> string \<Rightarrow> bool" where
  "re_search (Anchored r) s = (ends r s \<noteq> [])"
| "re_search (Floating r) s = search_from r s"

subsection \<open>The patterns of the extractor\<close>

text \<open>\<open>phrase [w1, w2, ...]\<close> is \<open>w1\<bsol>s+w2\<bsol>s+...\<close> under \<open>re.IGNORECASE\<close>.\<close>

fun phrase :: "string list \<Rightarrow> rx" where
  "phrase [] = Eps"
| "phrase [w] = StrI w"
| "phrase (w # ws) = Seq (StrI w) (Seq (Plus Sp) (phrase ws))"

text \<open>\<open>self.NON_CONTENT_PATTERNS\<close>, in the order of the source.\<close>

definition NON_CONTENT_PATTERNS :: "pat list" where
  "NON_CONTENT_PATTERNS =
    [Anchored (seqs [Star Sp, Plus Dg, Star Sp, Eol]),
     Anchored (seqs [Star Sp, Lit CHR ''-'', Star Sp, Plus Dg, Star Sp, Lit CHR ''-'', Star Sp, Eol]),
     Anchored (seqs [Star Sp, StrI ''page'', Plus Sp, Plus Dg, Star Sp, Eol]),
     Anchored (seqs [Star Sp, StrI ''page'', Plus Sp, Plus Dg, Plus Sp, StrI ''of'', Plus Sp,
                     Plus Dg, Star Sp, Eol]),
     Anchored (seqs [Star Sp, Alt (Plus (OneOfI ''ivxlcdm'')) Letter, Star Sp, Eol]),
     Floating (StrI ''www.''), Floating (StrI ''.gov''), Floating (StrI ''.org''),
     Floating (StrI ''.com''),
     Floating (StrI ''confidential''), Floating (StrI ''proprietar''), Floating (StrI ''draft''),
     Floating (StrI ''author''), Floating (StrI ''doi:''), Floating (StrI ''copyright''),
     Floating (seqs [StrI ''version'', Star Sp, Dg]),
     Floating (phrase [''all'', ''rights'', ''reserved'']),
     Floating (phrase [''contact'', ''information'']),
     Floating (phrase [''revision'', ''history'']),
     Floating (phrase [''document'', ''id'']),
     Floating (phrase [''file'', ''id'']),
     Floating (seqs [StrI ''bosch'', Opt (LitI CHR ''a''), Plus Sp, phrase [''north'', ''america'']]),
     Floating (phrase [''mutual'', ''nda'']),
     Floating (seqs [StrI ''rev.'', Star Sp, Dg, Dg, Dg, Dg, Lit CHR ''.'', Dg, Dg,
                     Lit CHR ''.'', Dg, Dg]),
     Floating (StrI ''gretchen whitmer''), Floating (StrI ''by the governor''),
     Floating (StrI ''secretary of state''),
     Floating (seqs [Dg, Opt (Seq Dg (Opt Dg)), Plus Sp,
                     Opt (alts [StrI ''south'', StrI ''north'', StrI ''east'', StrI ''west'']),
                     Star Sp, StrI ''capitol'']),
     Floating (StrI ''george w. romney building''), Floating (StrI ''printed in-house''),
     Anchored (seqs [Star Sp,
                     Cls (\<lambda>c. c \<in> set ''*#-_='' \<or> is_space c),
                     Cls (\<lambda>c. c \<in> set ''*#-_='' \<or> is_space c),
                     Cls (\<lambda>c. c \<in> set ''*#-_='' \<or> is_space c),
                     Star (Cls (\<lambda>c. c \<in> set ''*#-_='' \<or> is_space c)), Eol]),
     Anchored (seqs [Star Sp,
                     Alt (Seq (LitI CHR ''p'') (Opt (Lit CHR ''.'')))
                         (Seq (StrI ''pg'') (Opt (Lit CHR ''.''))),
                     Star Sp, Plus Dg, Star Sp, Eol]),
     Floating (seqs [phrase [''rfp:'', ''to'', ''develop'', ''the'', ''ontario'', ''digital'',
                             ''library'', ''business'', ''plan'', ''march''],
                     Plus Sp, Dg, Dg, Dg, Dg]),
     Floating (phrase [''ontario'' @ [CHR 0x27] @ ''s'', ''libraries'']),
     Floating (phrase [''working'', ''together'']),
     Floating (phrase [''connecting'', ''ontarians!''])]"

text \<open>
  \<open>self.heading_patterns\<close>, all compiled with \<open>re.IGNORECASE\<close>, so that \<open>[A-Z]\<close> and
  \<open>[a-z]\<close> both are \<open>Letter\<close> (\<open>[a-zA-Z]\<close>). The lookbehind \<open>(?<!\<bsol>.)\<close> of the fourth pattern stands
  right after \<open>[A-Z\<bsol>s]{5,}\<close>, whose last character is never a period: it always holds
  and is left out.
\<close>

definition heading_tail :: rx where
  "heading_tail = seqs [Letter, Star Dot, Opt (OneOf '':.''), Eol]"

definition heading_patterns :: "pat list" where
  "heading_patterns =
    [Anchored (seqs [Star Sp,
                     alts [StrI ''Chapter'', StrI ''Section'', StrI ''Part'', StrI ''Appendix''],
                     Plus Sp, Alt (Plus Dg) (Plus (OneOfI ''IVXLCDM'')),
                     Star (Seq (Lit CHR ''.'') (Plus Dg)), Star Sp, Opt (OneOf '':.''), Eol]),
     Anchored (seqs [Star Sp, Plus Dg, Star (Seq (Lit CHR ''.'') (Plus Dg)), Opt (Lit CHR ''.''),
                     Star Sp, heading_tail]),
     Anchored (seqs [Star Sp, Plus (OneOfI ''IVXLCDM''), Plus Sp, heading_tail]),
     Anchored (seqs [Letter,
                     Cls (\<lambda>c. is_ascii_letter c \<or> is_space c), Cls (\<lambda>c. is_ascii_letter c \<or> is_space c),
                     Cls (\<lambda>c. is_ascii_letter c \<or> is_space c), Cls (\<lambda>c. is_ascii_letter c \<or> is_space c),
                     Cls (\<lambda>c. is_ascii_letter c \<or> is_space c),
                     Star (Cls (\<lambda>c. is_ascii_letter c \<or> is_space c)), Star Sp, Eol]),
     Anchored (seqs [Letter, Plus Letter, Star (seqs [Plus Sp, Letter, Star Letter]), Star Sp,
                     Opt (OneOf '':.''), Eol]),
     Anchored (seqs [Star Sp, Lit CHR ''('', Letter, Lit CHR '')'', Plus Sp, heading_tail]),
     Anchored (seqs [Star Sp, Letter, Lit CHR ''.'', Plus Sp, heading_tail])]"

text \<open>
  The enumeration test of the feature extractor (line 256, case-sensitive):
  \<open>^\<bsol>s*(\<bsol>d+(\<bsol>.\<bsol>d+)*\<bsol>.?|[A-Z][a-zA-Z]*\<bsol>.|\<bsol>([a-zA-Z]\<bsol>)|\<bsol>d+\<bsol>))\<bsol>s*\<close>.
\<close>

definition enum_pattern :: pat where
  "enum_pattern =
     Anchored (seqs [Star Sp,
       alts [seqs [Plus Dg, Star (Seq (Lit CHR ''.'') (Plus Dg)), Opt (Lit CHR ''.'')],
             seqs [Cls is_ascii_upper, Star Letter, Lit CHR ''.''],
             seqs [Lit CHR ''('', Letter, Lit CHR '')''],
             seqs [Plus Dg, Lit CHR '')'']],
       Star Sp])"

text \<open>
  The short tokens that rule 3 of the redundancy filter keeps (line 174):
  \<open>^\<bsol>s*(\<bsol>d+\<bsol>.?|\<bsol>([a-zA-Z]\<bsol>)|\<bsol>w\<bsol>.|\<bsol>s*[*+-]\<bsol>s*)$\<close>.
\<close>

definition short_token_pattern :: pat where
  "short_token_pattern =
     Anchored (seqs [Star Sp,
       alts [Seq (Plus Dg) (Opt (Lit CHR ''.'')),
             seqs [Lit CHR ''('', Letter, Lit CHR '')''],
             Seq Wd (Lit CHR ''.''),
             seqs [Star Sp, OneOf ''*+-'', Star Sp]],
       Eol])"

text \<open>The patterns of the level classifier (lines 485 to 505), case-sensitive.\<close>

definition enum3_pattern :: pat where
  "enum3_pattern =
     Anchored (seqs [Star Sp, Plus Dg, Lit CHR ''.'', Plus Dg, Lit CHR ''.'', Plus Dg,
                     Star (Seq (Lit CHR ''.'') (Plus Dg)), Plus Sp])"

definition enum2_pattern :: pat where
  "enum2_pattern = Anchored (seqs [Star Sp, Plus Dg, Lit CHR ''.'', Plus Dg, Plus Sp])"

definition enum1_pattern :: pat where
  "enum1_pattern = Anchored (seqs [Star Sp, Plus Dg, Plus Sp])"

definition roman_pattern :: pat where
  "roman_pattern = Anchored (seqs [Star Sp, Plus (OneOf ''IVXLCDM''), Plus Sp])"

definition letter_paren_pattern :: pat where
  "letter_paren_pattern =
     Anchored (seqs [Star Sp, Letter, Opt (Lit CHR ''.''), Star Sp, Lit CHR '')''])"

definition letter_dot_pattern :: pat where
  "letter_dot_pattern = Anchored (seqs [Star Sp, Letter, Star Sp, Lit CHR ''.'', Plus Sp])"

text \<open>\<open>^\<bsol>d+\<bsol>.?$\<close> of the title check (line 610) and \<open>.*\<bsol>d+\<bsol>.$\<close> of the merger (line 663).\<close>

definition bare_number_pattern :: pat where
  "bare_number_pattern = Anchored (seqs [Plus Dg, Opt (Lit CHR ''.''), Eol])"

definition enum_end_pattern :: pat where
  "enum_end_pattern = Anchored (seqs [Star Dot, Plus Dg, Lit CHR ''.'', Eol])"

subsection \<open>Numbers\<close>

text \<open>\<open>int(x)\<close> truncates towards zero; \<open>round(x, 2)\<close> rounds half to even.\<close>

definition py_int :: "rat \<Rightarrow> int" where
  "py_int x = (if 0 \<le> x then \<lfloor>x\<rfloor> else \<lceil>x\<rceil>)"

definition round_half_even :: "rat \<Rightarrow> int" where
  "round_half_even x =
     (let f = \<lfloor>x\<rfloor>; d = x - of_int f
      in if d < 1 / 2 then f else if 1 / 2 < d then f + 1 else if even f then f else f + 1)"

definition round2 :: "rat \<Rightarrow> rat" where
  "round2 x = of_int (round_half_even (x * 100)) / 100"

subsection \<open>Exceptions\<close>

text \<open>
  The exceptions of the model: \<open>fitz.open\<close> failing, a dictionary read with \<open>d[key]\<close>
  for an absent key, and the read of a local variable that was never assigned.
\<close>

datatype error = OpenError | KeyError | UnboundLocalError

text \<open>A loop over \<open>xs\<close> whose body may raise; the exception ends the loop.\<close>

fun foldM :: "('s \<Rightarrow> 'a \<Rightarrow> error + 's) \<Rightarrow> 's \<Rightarrow> 'a list \<Rightarrow> error + 's" where
  "foldM f s [] = Inr s"
| "foldM f s (x # xs) = (case f s x of Inl e \<Rightarrow> Inl e | Inr s' \<Rightarrow> foldM f s' xs)"

text \<open>
  The same for a loop that mutates an attribute of the extractor: the body returns the
  state it leaves and the exception it raised, if any, and so does the loop.
\<close>

fun fold_raise :: "('s \<Rightarrow> 'a \<Rightarrow> 's \<times> error option) \<Rightarrow> 's \<Rightarrow> 'a list \<Rightarrow> 's \<times> error option" where
  "fold_raise f s [] = (s, None)"
| "fold_raise f s (x # xs) =
     (case f s x of (s', Some e) \<Rightarrow> (s', Some e) | (s', None) \<Rightarrow> fold_raise f s' xs)"

text \<open>A list comprehension with two loops whose inner part may raise.\<close>

fun concat_mapM :: "('a \<Rightarrow> error + 'b list) \<Rightarrow> 'a list \<Rightarrow> error + 'b list" where
  "concat_mapM f [] = Inr []"
| "concat_mapM f (x # xs) =
     (case f x of
        Inl e \<Rightarrow> Inl e
      | Inr ys \<Rightarrow> (case concat_mapM f xs of Inl e \<Rightarrow> Inl e | Inr zs \<Rightarrow> Inr (ys @ zs)))"

subsection \<open>The layout data read from the PDF library\<close>

type_synonym rect = "rat \<times> rat \<times> rat \<times> rat"

definition x0 :: "rect \<Rightarrow> rat" where "x0 b = (case b of (a, _, _, _) \<Rightarrow> a)"
definition y0 :: "rect \<Rightarrow> rat" where "y0 b = (case b of (_, a, _, _) \<Rightarrow> a)"
definition x1 :: "rect \<Rightarrow> rat" where "x1 b = (case b of (_, _, a, _) \<Rightarrow> a)"
definition y1 :: "rect \<Rightarrow> rat" where "y1 b = (case b of (_, _, _, a) \<Rightarrow> a)"

text \<open>
  A span dictionary. Each of its keys may be absent (\<open>None\<close>): the source reads
  \<open>s["text"]\<close> and \<open>s["size"]\<close>, which raise \<open>KeyError\<close> for an absent key, and reads the
  keys of the first span of a line with \<open>.get\<close> and a default. Lines and blocks carry
  their \<open>"bbox"\<close>, and lines their \<open>"spans"\<close>.
\<close>

record span =
  sp_text :: "string option"
  sp_size :: "rat option"
  sp_font :: "string option"
  sp_flags :: "int option"
  sp_color :: "int option"

record layout_line =
  ll_bbox :: rect
  ll_spans :: "span list"

text \<open>A block has a \<open>"lines"\<close> key or not (an image block): \<open>bl_lines\<close> is an option.\<close>

record block =
  bl_bbox :: rect
  bl_lines :: "layout_line list option"

record pdf_page =
  pg_width :: rat
  pg_height :: rat
  pg_blocks :: "block list"

type_synonym document = "pdf_page list"

subsection \<open>Configuration and per-document state\<close>

definition HF_TOP_ZONE_PERCENTAGE :: rat where "HF_TOP_ZONE_PERCENTAGE = 6 / 100"
definition HF_BOTTOM_ZONE_PERCENTAGE :: rat where "HF_BOTTOM_ZONE_PERCENTAGE = 6 / 100"
definition HF_MIN_PAGES_FOR_REPETITION :: nat where "HF_MIN_PAGES_FOR_REPETITION = 3"
definition HF_REPETITION_THRESHOLD_PERCENT :: rat where "HF_REPETITION_THRESHOLD_PERCENT = 75 / 100"
definition HEADING_SCORE_THRESHOLD :: rat where "HEADING_SCORE_THRESHOLD = 75"
definition MIN_HEADING_FONT_SIZE_RATIO :: rat where "MIN_HEADING_FONT_SIZE_RATIO = 13 / 10"
definition MAX_HEADING_WORD_COUNT :: nat where "MAX_HEADING_WORD_COUNT = 18"

definition heading_keywords :: "string list" where
  "heading_keywords =
    [''introduction'', ''conclusion'', ''summary'', ''overview'', ''background'',
     ''methodology'', ''results'', ''discussion'', ''references'', ''appendix'',
     ''chapter'', ''section'', ''abstract'', ''acknowledgments'', ''bibliography'',
     ''annex'', ''preface'', ''foreword'', ''table of contents'', ''list of figures'',
     ''list of tables'', ''definitions'', ''scope'', ''purpose'', ''policy'', ''procedure'',
     ''executive summary'', ''terms and conditions'', ''legal'', ''analysis'', ''findings'',
     ''evaluation'', ''award'', ''timeline'', ''milestones'', ''approach'', ''requirements'',
     ''principles'', ''access'', ''guidance'', ''training'', ''purchasing'', ''technological'',
     ''mean'', ''developed'', ''criteria'', ''process'', ''membership'', ''chair'', ''meetings'',
     ''accountability'', ''communication'', ''financial'', ''administrative'', ''policies'',
     ''preamble'', ''terms of reference'']"

text \<open>
  The three attributes of the extractor that \<open>_reset_state\<close> resets. \<open>_hf_candidates\<close> is a
  \<open>defaultdict(int)\<close> keyed by \<open>(normalized_text, y_bucket, is_top_zone)\<close>: a map, so that
  \<open>key in self._hf_candidates\<close> is \<open>hf_candidates st key \<noteq> None\<close>.
\<close>

type_synonym hf_key = "string \<times> int \<times> bool"

record extractor =
  hf_candidates :: "hf_key \<rightharpoonup> nat"
  total_pages_in_doc :: nat
  page_dimensions :: "nat \<rightharpoonup> rat \<times> rat"

text \<open>The extractor as \<open>__init__\<close> leaves it (lines 84 to 86).\<close>

definition initial_extractor :: extractor where
  "initial_extractor = \<lparr>hf_candidates = Map.empty, total_pages_in_doc = 0,
                         page_dimensions = Map.empty\<rparr>"

definition reset_state :: "extractor \<Rightarrow> extractor" where
  "reset_state st = st\<lparr>hf_candidates := Map.empty, total_pages_in_doc := 0,
                        page_dimensions := Map.empty\<rparr>"

text \<open>\<open>_is_bold\<close> and \<open>_is_italic\<close>: bits 0 and 1 of the font flags.\<close>

definition is_bold_flags :: "int \<Rightarrow> bool" where
  "is_bold_flags flags = bit flags 0"

definition is_italic_flags :: "int \<Rightarrow> bool" where
  "is_italic_flags flags = bit flags 1"

subsection \<open>Header and footer detection\<close>

text \<open>\<open>re.sub(r'\<bsol>s+', ' ', text)\<close>: every run of whitespace becomes one space.\<close>

function collapse_ws :: "string \<Rightarrow> string" where
  "collapse_ws [] = []"
| "collapse_ws (c # cs) =
     (if is_space c then CHR 0x20 # collapse_ws (dropWhile is_space cs)
      else c # collapse_ws cs)"
  by pat_completeness auto
termination
  by (relation "measure length") (auto simp: length_dropWhile_le less_Suc_eq_le)

text \<open>
  \<open>re.sub(pattern, '', s)\<close> for a pattern that matches no empty string and, at each
  position, matches in one way only as far as the remainder goes: the leftmost matches
  are cut out, left to right.
\<close>

fun re_delete :: "rx \<Rightarrow> string \<Rightarrow> string" where
  "re_delete r [] = []"
| "re_delete r (c # cs) =
     (case ends r (c # cs) of
        [] \<Rightarrow> c # re_delete r cs
      | t # _ \<Rightarrow> if length t < Suc (length cs) then re_delete r t else c # re_delete r cs)"

text \<open>
  The three patterns \<open>_normalize_text_for_hf_comparison\<close> removes:
  \<open>(\<bsol>d+\<bsol>s*of\<bsol>s*\<bsol>d+|\<bsol>s*page\<bsol>s*\<bsol>d+\<bsol>s*|-\<bsol>s*\<bsol>d+\<bsol>s*-|\<bsol>d+)$\<close>, \<open>\<bsol>d{4}-\<bsol>d{2}-\<bsol>d{2}\<close> and
  \<open>[0-9a-f]{32}\<close> (all case-sensitive).
\<close>

definition Str :: "string \<Rightarrow> rx" where
  "Str s = seqs (map Lit s)"

definition page_suffix_rx :: rx where
  "page_suffix_rx =
     Seq (alts [seqs [Plus Dg, Star Sp, Str ''of'', Star Sp, Plus Dg],
                seqs [Star Sp, Str ''page'', Star Sp, Plus Dg, Star Sp],
                seqs [Lit CHR ''-'', Star Sp, Plus Dg, Star Sp, Lit CHR ''-''],
                Plus Dg]) Eol"

definition date_rx :: rx where
  "date_rx = seqs [Dg, Dg, Dg, Dg, Lit CHR ''-'', Dg, Dg, Lit CHR ''-'', Dg, Dg]"

definition hex_digit_rx :: rx where
  "hex_digit_rx = Cls (\<lambda>c. is_digit c \<or> c \<in> set ''abcdef'')"

definition hash_rx :: rx where
  "hash_rx = seqs (replicate 32 hex_digit_rx)"

definition normalize_text_for_hf_comparison :: "string \<Rightarrow> string" where
  "normalize_text_for_hf_comparison t =
     (let n1 = lower (strip (collapse_ws t));
          n2 = strip (re_delete page_suffix_rx n1);
          n3 = strip (re_delete date_rx n2)
      in strip (re_delete hash_rx n3))"

text \<open>\<open>[s["text"] for s in l["spans"]]\<close> and the line text of lines 135 and 231.\<close>

fun span_texts :: "span list \<Rightarrow> error + string list" where
  "span_texts [] = Inr []"
| "span_texts (s # ss) =
     (case sp_text s of
        None \<Rightarrow> Inl KeyError
      | Some t \<Rightarrow> (case span_texts ss of Inl e \<Rightarrow> Inl e | Inr ts \<Rightarrow> Inr (t # ts)))"

definition line_text_of :: "layout_line \<Rightarrow> error + string" where
  "line_text_of l =
     (case span_texts (ll_spans l) of Inl e \<Rightarrow> Inl e | Inr ts \<Rightarrow> Inr (strip (join_sp ts)))"

definition y_bucket_of :: "rat \<Rightarrow> int" where
  "y_bucket_of y = py_int (y / 5) * 5"

text \<open>
  The body of the innermost loop of \<open>_pre_process_for_hf_detection\<close> (lines 135 to 149):
  the census it leaves, and the exception of line 135 if a span has no text.
\<close>

definition hf_count_line ::
  "rat \<Rightarrow> bool \<Rightarrow> (hf_key \<rightharpoonup> nat) \<Rightarrow> layout_line \<Rightarrow> (hf_key \<rightharpoonup> nat) \<times> error option" where
  "hf_count_line page_height scanned hf l =
     (case line_text_of l of
        Inl e \<Rightarrow> (hf, Some e)
      | Inr lt \<Rightarrow>
         (if lt = [] then hf
          else
            let in_top_zone = y0 (ll_bbox l) < page_height * HF_TOP_ZONE_PERCENTAGE;
                in_bottom_zone = y1 (ll_bbox l) > page_height * (1 - HF_BOTTOM_ZONE_PERCENTAGE)
            in if (in_top_zone \<or> in_bottom_zone) \<and> scanned then
                 let nt = normalize_text_for_hf_comparison lt in
                 if nt \<noteq> [] \<and> length nt > 3 then
                   let k = (nt, y_bucket_of (y0 (ll_bbox l)), in_top_zone)
                   in hf(k \<mapsto> (case hf k of None \<Rightarrow> 0 | Some n \<Rightarrow> n) + 1)
                 else hf
               else hf,
          None))"

definition hf_count_block ::
  "rat \<Rightarrow> bool \<Rightarrow> (hf_key \<rightharpoonup> nat) \<Rightarrow> block \<Rightarrow> (hf_key \<rightharpoonup> nat) \<times> error option" where
  "hf_count_block page_height scanned hf b =
     (case bl_lines b of
        None \<Rightarrow> (hf, None)
      | Some ls \<Rightarrow> fold_raise (hf_count_line page_height scanned) hf ls)"

definition hf_count_page ::
  "nat \<Rightarrow> extractor \<Rightarrow> nat \<times> pdf_page \<Rightarrow> extractor \<times> error option" where
  "hf_count_page pages_to_scan st np =
     (case np of (page_num, pg) \<Rightarrow>
        let st' = st\<lparr>page_dimensions :=
                       (page_dimensions st)(page_num \<mapsto> (pg_width pg, pg_height pg))\<rparr>
        in case fold_raise (hf_count_block (pg_height pg) (page_num < pages_to_scan))
                  (hf_candidates st') (pg_blocks pg) of
             (hf, err) \<Rightarrow> (st'\<lparr>hf_candidates := hf\<rparr>, err))"

text \<open>
  \<open>_pre_process_for_hf_detection\<close>: the extractor it leaves, and the exception that
  ended it, if any.
\<close>

definition pre_process_for_hf_detection ::
  "extractor \<Rightarrow> document \<Rightarrow> extractor \<times> error option" where
  "pre_process_for_hf_detection st doc =
     (let st1 = st\<lparr>total_pages_in_doc := length doc\<rparr>;
          pages_to_scan = min (total_pages_in_doc st1) 10
      in fold_raise (hf_count_page pages_to_scan) st1 (enumerate 0 doc))"

definition is_redundant_line :: "extractor \<Rightarrow> string \<Rightarrow> rat \<Rightarrow> rat \<Rightarrow> nat \<Rightarrow> bool" where
  "is_redundant_line st t y_top y_bottom page_num =
     (let text_lower = lower (strip t);
          page_height = (case page_dimensions st page_num of Some d \<Rightarrow> snd d | None \<Rightarrow> 842)
      in if list_ex (\<lambda>p. re_search p text_lower) NON_CONTENT_PATTERNS then True
         else
           let in_top_zone = y_top < page_height * HF_TOP_ZONE_PERCENTAGE;
               in_bottom_zone = y_bottom > page_height * (1 - HF_BOTTOM_ZONE_PERCENTAGE)
           in if length (strip t) < 5 then
                (if re_match short_token_pattern (strip t) then False else True)
              else if total_pages_in_doc st > 0 then
                let nt = normalize_text_for_hf_comparison t;
                    y_bucket = y_bucket_of y_top
                in if nt \<noteq> [] \<and> length nt > 3 then
                     (case hf_candidates st (nt, y_bucket, in_top_zone) of
                        Some count \<Rightarrow>
                          if count \<ge> HF_MIN_PAGES_FOR_REPETITION \<and>
                             of_nat count / of_nat (total_pages_in_doc st)
                               \<ge> HF_REPETITION_THRESHOLD_PERCENT
                          then True else False
                      | None \<Rightarrow> False)
                   else False
              else False)"

subsection \<open>Line records and the heading scorer\<close>

text \<open>
  The dictionary built for each line (lines 264 to 284). The key \<open>'text'\<close> is the field
  \<open>ltext\<close>. Two keys are read with a default: \<open>'whitespace_below'\<close>, which no statement
  of the source assigns, and \<open>'heading_score'\<close>, assigned after the line is scored; both
  are \<open>option\<close> fields, \<open>None\<close> when the key is absent.
\<close>

record line =
  ltext :: string
  page :: int
  font_size :: rat
  font_name :: string
  is_bold :: bool
  is_italic :: bool
  bbox :: rect
  color :: int
  rel_font_size :: rat
  x_pos :: rat
  y_pos :: rat
  whitespace_above :: rat
  whitespace_below :: "rat option"
  seq_idx :: nat
  word_count :: nat
  cap_ratio :: rat
  ends_with_period :: bool
  ends_with_colon :: bool
  has_enum :: bool
  has_cue :: bool
  heading_score :: "rat option"

text \<open>\<open>self._page_dimensions.get(i)\<close> for an integer \<open>i\<close> that may be negative.\<close>

definition get_page_dims :: "extractor \<Rightarrow> int \<Rightarrow> (rat \<times> rat) option" where
  "get_page_dims st i = (if i < 0 then None else page_dimensions st (nat i))"

definition get_score :: "line \<Rightarrow> rat" where
  "get_score l = (case heading_score l of None \<Rightarrow> 0 | Some s \<Rightarrow> s)"

text \<open>\<open>round(sum(1 for c in text if c.isupper()) / max(len(text), 1), 2)\<close> (lines 279, 702).\<close>

definition cap_ratio_of :: "string \<Rightarrow> rat" where
  "cap_ratio_of t = round2 (of_nat (length (filter is_upper t)) / of_nat (max (length t) 1))"

text \<open>The summands of \<open>calculate_heading_score\<close>, one per \<open>current_score_component\<close>.\<close>

definition font_component :: "line \<Rightarrow> rat \<Rightarrow> rat" where
  "font_component l avg =
     (if avg > 0 then
        (let size_ratio = font_size l / avg
         in if size_ratio \<ge> 18 / 10 then 50
            else if size_ratio \<ge> 15 / 10 then 35
            else if size_ratio > MIN_HEADING_FONT_SIZE_RATIO then 25 else 0)
      else 0)"

definition bold_component :: "line \<Rightarrow> rat" where
  "bold_component l = (if is_bold l then 45 else 0)"

definition italic_component :: "line \<Rightarrow> rat" where
  "italic_component l = (if is_italic l then 0 else 0)"

definition pattern_component :: "line \<Rightarrow> rat" where
  "pattern_component l = (if list_ex (\<lambda>p. re_match p (ltext l)) heading_patterns then 30 else 0)"

definition enum_component :: "line \<Rightarrow> rat" where
  "enum_component l = (if has_enum l then 35 else 0)"

definition cue_component :: "line \<Rightarrow> rat" where
  "cue_component l = (if has_cue l then 10 else 0)"

definition whitespace_component :: "line \<Rightarrow> rat \<Rightarrow> rat" where
  "whitespace_component l avg =
     (let body_size = avg;
          combined_whitespace =
            whitespace_above l + (case whitespace_below l of None \<Rightarrow> 0 | Some w \<Rightarrow> w)
      in if combined_whitespace > body_size * (25 / 10) then 15
         else if combined_whitespace > body_size * (15 / 10) then 10
         else if combined_whitespace > body_size * (8 / 10) then 5 else 0)"

definition page_width_of :: "extractor \<Rightarrow> int \<Rightarrow> rat" where
  "page_width_of st i = (case get_page_dims st i of Some d \<Rightarrow> fst d | None \<Rightarrow> 595)"

definition left_component :: "extractor \<Rightarrow> line \<Rightarrow> rat" where
  "left_component st l =
     (let page_width = page_width_of st (page l - 1);
          typical_left_margin = page_width * (12 / 100)
      in if \<bar>x_pos l - typical_left_margin\<bar> < 10 then 10 else 0)"

definition center_component :: "extractor \<Rightarrow> line \<Rightarrow> rat" where
  "center_component st l =
     (let page_width = page_width_of st (page l - 1);
          text_center_x = x_pos l + (x1 (bbox l) - x_pos l) / 2;
          page_center_x = page_width / 2
      in if \<bar>text_center_x - page_center_x\<bar> < page_width * (8 / 100) then 12 else 0)"

definition word_count_component :: "line \<Rightarrow> rat" where
  "word_count_component l =
     (if 2 \<le> word_count l \<and> word_count l \<le> MAX_HEADING_WORD_COUNT then 6
      else if word_count l > MAX_HEADING_WORD_COUNT + 10 then - 30
      else if word_count l < 2 then - 25 else 0)"

definition capitalization_component :: "line \<Rightarrow> rat" where
  "capitalization_component l =
     (if cap_ratio l = 1 \<and> (of_nat (word_count l) :: rat) \<le> of_nat MAX_HEADING_WORD_COUNT / 2
      then 12
      else if istitle (ltext l) \<and> word_count l \<le> MAX_HEADING_WORD_COUNT then 8 else 0)"

definition ending_component :: "line \<Rightarrow> rat" where
  "ending_component l =
     (if ends_with_period l then - 45
      else if ends_with_colon l then 15
      else if \<not> (ends_with_period l \<or> ends_with_colon l) then 10 else 0)"

definition first_page_component :: "line \<Rightarrow> rat \<Rightarrow> rat" where
  "first_page_component l avg =
     (if page l = 1 \<and> y_pos l < 120 \<and> font_size l \<ge> avg * (18 / 10) then 25 else 0)"

definition color_component :: "line \<Rightarrow> rat" where
  "color_component l = (if color l = 0 then 3 else 0)"

text \<open>
  \<open>calculate_heading_score\<close>. The local \<open>size_ratio\<close> is assigned only under
  \<open>avg_doc_font_size > 0\<close> (line 329) and read by the f-string of line 337, which Python
  evaluates whatever the logging level is: with a mean that is not positive the read
  raises \<open>UnboundLocalError\<close>, after the empty-text return of line 324.
\<close>

definition calculate_heading_score :: "extractor \<Rightarrow> line \<Rightarrow> rat \<Rightarrow> error + rat" where
  "calculate_heading_score st l avg =
     (if ltext l = [] then Inr 0
      else if \<not> avg > 0 then Inl UnboundLocalError
      else Inr (font_component l avg + bold_component l + italic_component l
                + pattern_component l + enum_component l + cue_component l
                + whitespace_component l avg + left_component st l + center_component st l
                + word_count_component l + capitalization_component l + ending_component l
                + first_page_component l avg + color_component l))"

subsection \<open>Feature extraction\<close>

text \<open>
  The sizes of all spans of positive size (lines 205 to 210); \<open>s["size"]\<close> raises for a
  span without size.
\<close>

fun span_sizes :: "span list \<Rightarrow> error + rat list" where
  "span_sizes [] = Inr []"
| "span_sizes (s # ss) =
     (case sp_size s of
        None \<Rightarrow> Inl KeyError
      | Some z \<Rightarrow>
          (case span_sizes ss of
             Inl e \<Rightarrow> Inl e
           | Inr zs \<Rightarrow> Inr (if z > 0 then z # zs else zs)))"

definition all_doc_font_sizes :: "document \<Rightarrow> error + rat list" where
  "all_doc_font_sizes doc =
     concat_mapM (\<lambda>pg. concat_mapM (\<lambda>b.
       concat_mapM (\<lambda>l. span_sizes (ll_spans l))
                   (case bl_lines b of None \<Rightarrow> [] | Some ls \<Rightarrow> ls))
       (pg_blocks pg)) doc"

definition mean :: "rat list \<Rightarrow> rat" where
  "mean xs = sum_list xs / of_nat (length xs)"

definition avg_doc_font_size_of :: "document \<Rightarrow> error + rat" where
  "avg_doc_font_size_of doc =
     (case all_doc_font_sizes doc of
        Inl e \<Rightarrow> Inl e
      | Inr sizes \<Rightarrow> Inr (if sizes \<noteq> [] then mean sizes else 12))"

text \<open>
  The dictionary of lines 264 to 284, from the line text, the line number of the page
  (0-based), the line's box, its first span if any, and the bottom of the last line seen
  on the page.
\<close>

definition line_features ::
  "string \<Rightarrow> nat \<Rightarrow> rect \<Rightarrow> span list \<Rightarrow> rat \<Rightarrow> rat \<Rightarrow> nat \<Rightarrow> line" where
  "line_features lt page_num line_bbox spans avg prev_bottom seq =
     (let fsize = (case spans of [] \<Rightarrow> 0
                   | s # _ \<Rightarrow> (case sp_size s of None \<Rightarrow> 0 | Some z \<Rightarrow> z));
          fname = (case spans of [] \<Rightarrow> []
                   | s # _ \<Rightarrow> (case sp_font s of None \<Rightarrow> [] | Some n \<Rightarrow> n));
          color_int = (case spans of [] \<Rightarrow> 0
                       | s # _ \<Rightarrow> (case sp_color s of None \<Rightarrow> 0 | Some c \<Rightarrow> c));
          flags = (case spans of [] \<Rightarrow> 0
                   | s # _ \<Rightarrow> (case sp_flags s of None \<Rightarrow> 0 | Some f \<Rightarrow> f))
      in \<lparr> ltext = lt,
           page = int page_num + 1,
           font_size = fsize,
           font_name = fname,
           is_bold = is_bold_flags flags,
           is_italic = is_italic_flags flags,
           bbox = line_bbox,
           color = color_int,
           rel_font_size = (if avg > 0 then round2 (fsize / avg) else 0),
           x_pos = x0 line_bbox,
           y_pos = y0 line_bbox,
           whitespace_above = max 0 (round2 (y0 line_bbox - prev_bottom)),
           whitespace_below = None,
           seq_idx = seq,
           word_count = length (split lt),
           cap_ratio = cap_ratio_of lt,
           ends_with_period = endswith (strip lt) CHR ''.'',
           ends_with_colon = endswith (strip lt) CHR '':'',
           has_enum = re_match enum_pattern lt,
           has_cue = list_ex (\<lambda>k. contains k (lower lt)) heading_keywords,
           heading_score = None \<rparr>)"

text \<open>
  The loop state of \<open>extract_text_lines_with_features\<close>: the bottom of the last line per
  page (a \<open>defaultdict\<close> with default \<open>0.0\<close>), \<open>seq_idx\<close>, and \<open>text_lines_data\<close>.
\<close>

type_synonym extract_state = "(nat \<Rightarrow> rat) \<times> nat \<times> line list"

definition extract_line ::
  "extractor \<Rightarrow> rat \<Rightarrow> nat \<Rightarrow> extract_state \<Rightarrow> layout_line \<Rightarrow> error + extract_state" where
  "extract_line st avg page_num acc ll =
     (case acc of (prev, seq, out) \<Rightarrow>
        case line_text_of ll of
          Inl e \<Rightarrow> Inl e
        | Inr lt \<Rightarrow>
            if lt = [] then Inr acc
            else
              let y_top = y0 (ll_bbox ll); y_bottom = y1 (ll_bbox ll) in
              if is_redundant_line st lt y_top y_bottom page_num
              then Inr (prev(page_num := y_bottom), seq, out)
              else
                let d = line_features lt page_num (ll_bbox ll) (ll_spans ll) avg
                          (prev page_num) seq
                in case calculate_heading_score st d avg of
                     Inl e \<Rightarrow> Inl e
                   | Inr sc \<Rightarrow>
                       Inr (prev(page_num := y_bottom), seq + 1,
                            out @ [d\<lparr>heading_score := Some sc\<rparr>]))"

definition extract_block ::
  "extractor \<Rightarrow> rat \<Rightarrow> nat \<Rightarrow> extract_state \<Rightarrow> block \<Rightarrow> error + extract_state" where
  "extract_block st avg page_num acc b =
     (case bl_lines b of
        None \<Rightarrow> Inr acc
      | Some ls \<Rightarrow>
          foldM (extract_line st avg page_num) acc
                (sort_key (\<lambda>l. (y0 (ll_bbox l), x0 (ll_bbox l))) ls))"

definition extract_page ::
  "extractor \<Rightarrow> rat \<Rightarrow> extract_state \<Rightarrow> nat \<times> pdf_page \<Rightarrow> error + extract_state" where
  "extract_page st avg acc np =
     (case np of (page_num, pg) \<Rightarrow>
        foldM (extract_block st avg page_num) acc
              (sort_key (\<lambda>b. (y0 (bl_bbox b), x0 (bl_bbox b))) (pg_blocks pg)))"

definition extract_text_lines_with_features :: "extractor \<Rightarrow> document \<Rightarrow> error + line list" where
  "extract_text_lines_with_features st doc =
     (case avg_doc_font_size_of doc of
        Inl e \<Rightarrow> Inl e
      | Inr avg \<Rightarrow>
          (case foldM (extract_page st avg) ((\<lambda>_. 0), 0, []) (enumerate 0 doc) of
             Inl e \<Rightarrow> Inl e
           | Inr acc \<Rightarrow> Inr (snd (snd acc))))"

subsection \<open>Font statistics\<close>

record font_stats =
  mean_font_size :: rat
  median_font_size :: rat
  body_font_size :: rat

text \<open>
  \<open>Counter(xs).most_common(1)[0][0]\<close>: the first value, in order of first occurrence,
  whose count is maximal. Walking over \<open>xs\<close> itself visits the values in that order, and
  a value met again never has a larger count than the best one so far.
\<close>

fun most_common_from :: "rat list \<Rightarrow> rat \<Rightarrow> rat list \<Rightarrow> rat" where
  "most_common_from xs best [] = best"
| "most_common_from xs best (k # ks) =
     (if count_list xs k > count_list xs best then most_common_from xs k ks
      else most_common_from xs best ks)"

definition median :: "rat list \<Rightarrow> rat" where
  "median xs =
     (let d = sort xs; n = length d
      in if odd n then d ! (n div 2) else (d ! (n div 2 - 1) + d ! (n div 2)) / 2)"

definition analyze_font_statistics :: "line list \<Rightarrow> font_stats option" where
  "analyze_font_statistics text_blocks =
     (case filter (\<lambda>z. z > 0) (map font_size text_blocks) of
        [] \<Rightarrow> None
      | z # zs \<Rightarrow>
          Some \<lparr> mean_font_size = mean (z # zs),
                 median_font_size = median (z # zs),
                 body_font_size = most_common_from (z # zs) z zs \<rparr>)"

subsection \<open>Level classification\<close>

datatype level = H1 | H2 | H3

text \<open>\<open>sorted(list(set(h['font_size'] for h in all_headings)), reverse=True)\<close>.\<close>

definition get_heading_font_sizes :: "line list \<Rightarrow> rat list" where
  "get_heading_font_sizes all_headings = rev (sort (remdups (map font_size all_headings)))"

text \<open>
  \<open>level_map.get(size, 'H3')\<close> for the \<open>level_map\<close> of lines 470 to 477: the largest size
  is H1, the second H2, every other size H3.
\<close>

definition level_from_size :: "rat list \<Rightarrow> rat \<Rightarrow> level" where
  "level_from_size unique_heading_sizes fsize =
     (if length unique_heading_sizes \<ge> 1 \<and> fsize = unique_heading_sizes ! 0 then H1
      else if length unique_heading_sizes \<ge> 2 \<and> fsize = unique_heading_sizes ! 1 then H2
      else H3)"

definition classify_heading_level ::
  "extractor \<Rightarrow> line \<Rightarrow> line list \<Rightarrow> font_stats option \<Rightarrow> level" where
  "classify_heading_level st heading all_headings_in_order fstats =
     (if all_headings_in_order = [] then H1
      else
        let unique_heading_sizes = get_heading_font_sizes all_headings_in_order;
            current_level = level_from_size unique_heading_sizes (font_size heading);
            body_size = (case fstats of None \<Rightarrow> 12 | Some f \<Rightarrow> body_font_size f);
            t = ltext heading
        in if re_match enum3_pattern t then H3
           else if re_match enum2_pattern t then
             (if current_level \<noteq> H1 then H2 else current_level)
           else if re_match enum1_pattern t \<or> re_match roman_pattern t then
             (if font_size heading \<ge> body_size * (18 / 10) \<and> current_level = H1 then H1
              else H2)
           else if re_match letter_paren_pattern t \<or> re_match letter_dot_pattern t then H3
           else
             let page_width = page_width_of st (page heading - 1);
                 typical_doc_margin = page_width * (1 / 10)
             in if x_pos heading > typical_doc_margin + 30 then
                  (if current_level = H1 then H2
                   else if current_level = H2 then H3
                   else current_level)
                else current_level)"

subsection \<open>Title extraction\<close>

definition non_content :: "string \<Rightarrow> bool" where
  "non_content t = list_ex (\<lambda>p. re_search p t) NON_CONTENT_PATTERNS"

text \<open>
  The fallback of lines 543 to 549 and 614 to 620: the first line, in \<open>(page, y_pos)\<close>
  order, whose score exceeds the threshold by more than 10.
\<close>

definition fallback_title :: "line list \<Rightarrow> string" where
  "fallback_title text_lines =
     (case sort_key (\<lambda>l. (page l, y_pos l))
             (filter (\<lambda>b. get_score b > HEADING_SCORE_THRESHOLD + 10) text_lines) of
        [] \<Rightarrow> ''Document''
      | h # _ \<Rightarrow> strip (ltext h))"

definition center_offset :: "rat \<Rightarrow> line \<Rightarrow> rat" where
  "center_offset page_width l = \<bar>(x0 (bbox l) + x1 (bbox l)) / 2 - page_width / 2\<bar>"

text \<open>
  The loop of lines 590 to 603: candidates are appended while each one passes the test;
  the first that fails ends the loop. The second argument is \<open>current_main_bottom_y\<close>.
\<close>

fun title_follow :: "rat \<Rightarrow> line \<Rightarrow> rat \<Rightarrow> line list \<Rightarrow> string list" where
  "title_follow page_width main bottom [] = []"
| "title_follow page_width main bottom (c # cs) =
     (if page c = page main \<and>
         \<bar>font_size c - font_size main\<bar> < 15 / 10 \<and>
         y_pos c - bottom < font_size main * 2 \<and>
         center_offset page_width c < page_width * (15 / 100) \<and>
         \<not> non_content (lower (ltext c))
      then strip (ltext c) # title_follow page_width main (y1 (bbox c)) cs
      else [])"

definition extract_title :: "extractor \<Rightarrow> line list \<Rightarrow> font_stats option \<Rightarrow> string" where
  "extract_title st text_lines fstats =
     (if text_lines = [] then ''Document''
      else
        case filter (\<lambda>l. page l = 1 \<and> length (strip (ltext l)) > 3) text_lines of
          [] \<Rightarrow> fallback_title text_lines
        | f # fs \<Rightarrow>
            let first_page_relevant_lines = f # fs;
                max_size = foldl max (font_size f) (map font_size fs);
                direct = filter (\<lambda>l. font_size l = max_size \<and> y_pos l < 200)
                                first_page_relevant_lines;
                title_candidates =
                  (if direct = [] then
                     filter (\<lambda>l. font_size l \<ge> max_size * (8 / 10) \<and> y_pos l < 200)
                            first_page_relevant_lines
                   else direct)
            in if title_candidates = [] then ''Document''
               else
                 let page_width = page_width_of st 0;
                     sorted_candidates =
                       sort_key (\<lambda>l. (y_pos l, center_offset page_width l)) title_candidates
                 in case sorted_candidates of
                      [] \<Rightarrow> ''Document''
                    | main # others \<Rightarrow>
                        let title_lines =
                              strip (ltext main)
                              # title_follow page_width main (y1 (bbox main)) others;
                            title = strip (collapse_ws (join_sp title_lines))
                        in if length title < 5 \<or> re_match bare_number_pattern title \<or>
                              non_content (lower title)
                           then fallback_title text_lines
                           else if title \<noteq> [] then title else ''Document'')"

subsection \<open>Multiline merger\<close>

text \<open>The break conditions of lines 644 to 685, in the order of the source.\<close>

definition different_page_break :: "line \<Rightarrow> line \<Rightarrow> bool" where
  "different_page_break cur nxt = (page cur \<noteq> page nxt)"

definition vertical_gap_break :: "line \<Rightarrow> line \<Rightarrow> bool" where
  "vertical_gap_break cur nxt = (y0 (bbox nxt) - y1 (bbox cur) \<ge> font_size cur * (15 / 10))"

definition font_delta_break :: "line \<Rightarrow> line \<Rightarrow> bool" where
  "font_delta_break cur nxt = (\<bar>font_size cur - font_size nxt\<bar> \<ge> 2)"

definition period_break :: "line \<Rightarrow> line \<Rightarrow> bool" where
  "period_break cur nxt =
     (ends_with_period cur \<and> \<not> re_match enum_end_pattern (strip (ltext cur)))"

definition next_enum_break :: "line \<Rightarrow> line \<Rightarrow> bool" where
  "next_enum_break cur nxt = has_enum nxt"

definition both_long_break :: "line \<Rightarrow> line \<Rightarrow> bool" where
  "both_long_break cur nxt =
     (word_count cur > MAX_HEADING_WORD_COUNT + 5 \<and> word_count nxt > MAX_HEADING_WORD_COUNT + 5)"

definition neither_bold_break :: "line \<Rightarrow> line \<Rightarrow> bool" where
  "neither_bold_break cur nxt =
     (\<not> is_bold cur \<and> \<not> is_bold nxt \<and> font_size cur < font_size cur * (15 / 10))"

definition merge_break :: "line \<Rightarrow> line \<Rightarrow> bool" where
  "merge_break cur nxt =
     (different_page_break cur nxt \<or> vertical_gap_break cur nxt \<or> font_delta_break cur nxt \<or>
      period_break cur nxt \<or> next_enum_break cur nxt \<or> both_long_break cur nxt \<or>
      neither_bold_break cur nxt)"

text \<open>The updates of lines 690 to 707.\<close>

definition merge_into :: "line \<Rightarrow> line \<Rightarrow> line" where
  "merge_into cur nxt =
     (let t = ltext cur @ '' '' @ strip (ltext nxt)
      in cur\<lparr> ltext := t,
              bbox := (min (x0 (bbox cur)) (x0 (bbox nxt)), min (y0 (bbox cur)) (y0 (bbox nxt)),
                       max (x1 (bbox cur)) (x1 (bbox nxt)), max (y1 (bbox cur)) (y1 (bbox nxt))),
              font_size := max (font_size cur) (font_size nxt),
              is_bold := (is_bold cur \<or> is_bold nxt),
              is_italic := (is_italic cur \<or> is_italic nxt),
              word_count := word_count cur + word_count nxt,
              cap_ratio := cap_ratio_of t,
              ends_with_period := ends_with_period nxt,
              ends_with_colon := ends_with_colon nxt,
              has_enum := (has_enum cur \<or> has_enum nxt),
              has_cue := (has_cue cur \<or> has_cue nxt),
              heading_score := Some (max (get_score cur) (get_score nxt)) \<rparr>)"

fun merge_loop :: "line \<Rightarrow> line list \<Rightarrow> line list" where
  "merge_loop cur [] = [cur]"
| "merge_loop cur (nxt # rest) =
     (if merge_break cur nxt then cur # merge_loop nxt rest
      else merge_loop (merge_into cur nxt) rest)"

definition merge_multiline_headings :: "line list \<Rightarrow> line list" where
  "merge_multiline_headings headings =
     (case sort_key (\<lambda>h. (page h, y0 (bbox h))) headings of
        [] \<Rightarrow> []
      | h # hs \<Rightarrow> merge_loop h hs)"

subsection \<open>Candidate selection and the pipeline\<close>

record outline_entry =
  oe_level :: level
  oe_text :: string
  oe_page :: int

record result =
  title :: string
  outline :: "outline_entry list"

definition placeholder :: result where
  "placeholder = \<lparr> title = ''Document'', outline = [] \<rparr>"

text \<open>
  The candidates of lines 741 to 752: the lines at or above the threshold, sorted by
  descending score (\<open>reverse=True\<close> keeps the order of equal scores) and then by
  \<open>(page, y_pos)\<close>; both sorts are stable.
\<close>

definition heading_candidates :: "line list \<Rightarrow> line list" where
  "heading_candidates text_lines =
     sort_key (\<lambda>l. - get_score l)
       (filter (\<lambda>l. get_score l \<ge> HEADING_SCORE_THRESHOLD) text_lines)"

definition heading_candidates_spatial_sort :: "line list \<Rightarrow> line list" where
  "heading_candidates_spatial_sort text_lines =
     sort_key (\<lambda>l. (page l, y_pos l)) (heading_candidates text_lines)"

definition norm_text_of :: "line \<Rightarrow> string" where
  "norm_text_of c = lower (strip (collapse_ws (ltext c)))"

text \<open>
  The loop of lines 757 to 784. Its state is \<open>final_filtered_headings\<close>,
  \<open>seen_norm_texts\<close>, \<open>last_added_bbox\<close> (\<open>None\<close> until a heading is added) and
  \<open>last_added_page\<close>; the \<open>break\<close> of line 784 returns at once.
\<close>

definition close_duplicate :: "line list \<Rightarrow> rect option \<Rightarrow> int \<Rightarrow> line \<Rightarrow> bool" where
  "close_duplicate final last_added_bbox last_added_page c =
     (case last_added_bbox of
        None \<Rightarrow> False
      | Some b \<Rightarrow>
          last_added_page = page c \<and>
          y_pos c - y1 b < font_size c * (8 / 10) \<and>
          \<bar>font_size c - font_size (last final)\<bar> < 1 \<and>
          is_bold c = is_bold (last final))"

fun select_loop ::
  "line list \<Rightarrow> string list \<Rightarrow> rect option \<Rightarrow> int \<Rightarrow> line list \<Rightarrow> line list" where
  "select_loop final seen last_added_bbox last_added_page [] = final"
| "select_loop final seen last_added_bbox last_added_page (c # cs) =
     (let norm_text = norm_text_of c in
      if length norm_text < 5 \<or> norm_text \<in> set seen
      then select_loop final seen last_added_bbox last_added_page cs
      else if close_duplicate final last_added_bbox last_added_page c
      then select_loop final seen last_added_bbox last_added_page cs
      else
        let final' = final @ [c] in
        if length final' \<ge> 150 then final'
        else select_loop final' (norm_text # seen) (Some (bbox c)) (page c) cs)"

definition select_headings :: "line list \<Rightarrow> line list" where
  "select_headings text_lines =
     select_loop [] [] None (- 1) (heading_candidates_spatial_sort text_lines)"

text \<open>Lines 789 to 793: the merged headings, sorted again by \<open>(page, bbox[1])\<close>.\<close>

definition merged_headings_of :: "line list \<Rightarrow> line list" where
  "merged_headings_of text_lines =
     sort_key (\<lambda>h. (page h, y0 (bbox h))) (merge_multiline_headings (select_headings text_lines))"

definition outline_entry_of :: "extractor \<Rightarrow> line list \<Rightarrow> font_stats option \<Rightarrow> line \<Rightarrow> outline_entry" where
  "outline_entry_of st merged fstats heading =
     \<lparr> oe_level = classify_heading_level st heading merged fstats,
       oe_text = strip (ltext heading),
       oe_page = page heading - 1 \<rparr>"

text \<open>Lines 731 to 818: what \<open>process_pdf\<close> builds from the extracted lines.\<close>

definition result_of_lines :: "extractor \<Rightarrow> line list \<Rightarrow> result" where
  "result_of_lines st text_lines =
     (if text_lines = [] then placeholder
      else
        let fstats = analyze_font_statistics text_lines;
            merged = merged_headings_of text_lines
        in \<lparr> title = extract_title st text_lines fstats,
             outline = map (outline_entry_of st merged fstats) merged \<rparr>)"

text \<open>
  The body of the \<open>try\<close> block, after \<open>fitz.open\<close> has returned the document: the
  extractor the pre-pass leaves, and either the exception raised (by the pre-pass or by
  the feature extraction) or the result.
\<close>

definition run_pipeline :: "extractor \<Rightarrow> document \<Rightarrow> extractor \<times> (error + result)" where
  "run_pipeline st doc =
     (case pre_process_for_hf_detection st doc of
        (st1, Some e) \<Rightarrow> (st1, Inl e)
      | (st1, None) \<Rightarrow>
          (st1, case extract_text_lines_with_features st1 doc of
                  Inl e \<Rightarrow> Inl e
                | Inr text_lines \<Rightarrow> Inr (result_of_lines st1 text_lines)))"

text \<open>
  \<open>process_pdf\<close>. The argument \<open>opened\<close> is what \<open>fitz.open(pdf_path)\<close> does: it raises
  (\<open>Inl\<close>) or returns the layout data (\<open>Inr\<close>). The function returns the result and the
  extractor it leaves behind for the next document.
\<close>

definition process_pdf :: "extractor \<Rightarrow> error + document \<Rightarrow> result \<times> extractor" where
  "process_pdf st opened =
     (let st0 = reset_state st
      in case opened of
           Inl e \<Rightarrow> (placeholder, st0)
         | Inr doc \<Rightarrow>
             (case run_pipeline st0 doc of
                (st1, Inl e) \<Rightarrow> (placeholder, st1)
              | (st1, Inr r) \<Rightarrow> (r, st1)))"

section \<open>Verification\<close>

subsection \<open>Evaluation rules\<close>

lemmas rx_defs = Plus_def Opt_def Lit_def LitI_def StrI_def Str_def Dot_def Sp_def Dg_def Wd_def
  Letter_def OneOf_def OneOfI_def

lemmas chr_defs = is_digit_def is_ascii_upper_def is_ascii_lower_def is_upper_def is_lower_def
  is_ascii_letter_def is_space_def is_word_def
  to_lower_def lower_def

lemmas rect_defs = x0_def y0_def x1_def y1_def

lemma floor_rat_numeral_div [simp]:
  "\<lfloor>(numeral a / numeral b :: rat)\<rfloor> = numeral a div numeral b"
  by (metis floor_divide_of_int_eq of_int_numeral)

lemma hash_rx_unfold:
  "hash_rx = seqs [hex_digit_rx, hex_digit_rx, hex_digit_rx, hex_digit_rx, hex_digit_rx,
     hex_digit_rx, hex_digit_rx, hex_digit_rx, hex_digit_rx, hex_digit_rx, hex_digit_rx,
     hex_digit_rx, hex_digit_rx, hex_digit_rx, hex_digit_rx, hex_digit_rx, hex_digit_rx,
     hex_digit_rx, hex_digit_rx, hex_digit_rx, hex_digit_rx, hex_digit_rx, hex_digit_rx,
     hex_digit_rx, hex_digit_rx, hex_digit_rx, hex_digit_rx, hex_digit_rx, hex_digit_rx,
     hex_digit_rx, hex_digit_rx, hex_digit_rx]"
  unfolding hash_rx_def by (simp add: eval_nat_numeral)

subsection \<open>The neither-bold break of the merger\<close>

text \<open>
  Two lines as the feature extractor builds them: 40 pt, not bold, on page 1, five units
  apart, with a document mean of 12 pt.
\<close>

definition large_line_1 :: line where
  "large_line_1 = (line_features ''Annual Report'' 0 (72, 100, 400, 140)
       [\<lparr>sp_text = Some ''Annual Report'', sp_size = Some 40, sp_font = Some ''Helvetica'',
         sp_flags = Some 0, sp_color = Some 0\<rparr>] 12 0 0)\<lparr>heading_score := Some 100\<rparr>"

definition large_line_2 :: line where
  "large_line_2 = (line_features ''Financial Overview'' 0 (72, 145, 400, 185)
       [\<lparr>sp_text = Some ''Financial Overview'', sp_size = Some 40, sp_font = Some ''Helvetica'',
         sp_flags = Some 0, sp_color = Some 0\<rparr>] 12 140 1)\<lparr>heading_score := Some 100\<rparr>"

lemma large_line_1_fields:
  "page large_line_1 = 1" "font_size large_line_1 = 40" "\<not> is_bold large_line_1"
  "bbox large_line_1 = (72, 100, 400, 140)" "\<not> ends_with_period large_line_1"
  "word_count large_line_1 = 2"
  by (simp_all add: large_line_1_def line_features_def is_bold_flags_def endswith_def strip_def
        split_def chr_defs)

lemma large_line_2_fields:
  "page large_line_2 = 1" "font_size large_line_2 = 40" "\<not> is_bold large_line_2"
  "bbox large_line_2 = (72, 145, 400, 185)" "\<not> has_enum large_line_2"
  "word_count large_line_2 = 2"
  by (simp_all add: large_line_2_def line_features_def is_bold_flags_def
        split_def chr_defs enum_pattern_def re_match_def rx_defs)

text \<open>
  The size test of line 681 compares the accumulator's font size with 1.5 times itself:
  it holds for every positive size and refers to no other size.
\<close>

lemma neither_bold_break_iff:
  "neither_bold_break cur nxt \<longleftrightarrow> \<not> is_bold cur \<and> \<not> is_bold nxt \<and> 0 < font_size cur"
  by (auto simp: neither_bold_break_def)

text \<open>
  C1 (fails on the code). The claim: two adjacent non-bold candidates with an
  exceptionally large font, for which no other break condition holds, are merged into
  one heading. On the two 40 pt lines above (more than three times the 12 pt mean) no
  other break condition holds, the neither-bold break fires, and the merger emits the
  two lines separately.
\<close>

theorem C1_large_nonbold_lines_emitted_separately:
  "\<not> different_page_break large_line_1 large_line_2 \<and>
   \<not> vertical_gap_break large_line_1 large_line_2 \<and>
   \<not> font_delta_break large_line_1 large_line_2 \<and>
   \<not> period_break large_line_1 large_line_2 \<and>
   \<not> next_enum_break large_line_1 large_line_2 \<and>
   \<not> both_long_break large_line_1 large_line_2 \<and>
   neither_bold_break large_line_1 large_line_2 \<and>
   merge_multiline_headings [large_line_1, large_line_2] = [large_line_1, large_line_2]"
  by (simp add: merge_multiline_headings_def merge_break_def different_page_break_def
      vertical_gap_break_def font_delta_break_def period_break_def next_enum_break_def
      both_long_break_def neither_bold_break_def large_line_1_fields large_line_2_fields
      rect_defs MAX_HEADING_WORD_COUNT_def)

subsection \<open>The capitalization component of the scorer\<close>

text \<open>The line \<open>HELLO WORLD\<close> as the feature extractor builds it.\<close>

definition caps_line :: line where
  "caps_line = line_features ''HELLO WORLD'' 0 (72, 100, 300, 120)
       [\<lparr>sp_text = Some ''HELLO WORLD'', sp_size = Some 14, sp_font = Some ''Helvetica'',
         sp_flags = Some 0, sp_color = Some 0\<rparr>] 12 0 0"

lemma cap_ratio_hello_world: "cap_ratio_of ''HELLO WORLD'' = 91 / 100"
  by (simp add: cap_ratio_of_def round2_def round_half_even_def chr_defs Let_def)

text \<open>
  C5 (fails on the code). The claim: an all-caps line of at most 9 words gets +12 from
  the capitalization component, also when it has spaces between its words. The line
  \<open>HELLO WORLD\<close> has no lowercase letter and two words, but its \<open>cap_ratio\<close> counts
  the space in the denominator (10 / 11, rounded to 0.91), so the test
  \<open>cap_ratio == 1.0\<close> fails; the text is not title-case either, and the component is 0.
\<close>

theorem C5_all_caps_with_space_scores_zero:
  "ltext caps_line = ''HELLO WORLD'' \<and>
   filter is_lower (ltext caps_line) = [] \<and>
   word_count caps_line = 2 \<and>
   cap_ratio caps_line = 91 / 100 \<and>
   capitalization_component caps_line = 0"
  by (simp add: caps_line_def line_features_def capitalization_component_def
      cap_ratio_hello_world istitle_def split_def chr_defs MAX_HEADING_WORD_COUNT_def)

subsection \<open>Totality of the scorer\<close>

text \<open>The line \<open>Introduction\<close> as the feature extractor builds it for a mean of 0.\<close>

definition intro_line :: line where
  "intro_line = line_features ''Introduction'' 0 (72, 100, 300, 120)
       [\<lparr>sp_text = Some ''Introduction'', sp_size = Some 14, sp_font = Some ''Helvetica'',
         sp_flags = Some 0, sp_color = Some 0\<rparr>] 0 0 0"

lemma calculate_heading_score_raises:
  "ltext l \<noteq> [] \<Longrightarrow> avg \<le> 0 \<Longrightarrow> calculate_heading_score st l avg = Inl UnboundLocalError"
  by (simp add: calculate_heading_score_def)

text \<open>
  C6 (fails on the code). The claim: \<open>calculate_heading_score\<close> returns a score for
  every line and every mean font size, 0 included. For a mean of 0 and a line with text
  the function raises \<open>UnboundLocalError\<close>: line 337 formats \<open>size_ratio\<close>, which is
  assigned only when the mean is positive.
\<close>

theorem C6_score_raises_for_zero_mean:
  "font_size intro_line = 14 \<and>
   calculate_heading_score st intro_line 0 = Inl UnboundLocalError"
  by (simp add: calculate_heading_score_def intro_line_def line_features_def)

subsection \<open>State reset and failure handling\<close>

lemma reset_state_const: "reset_state s1 = reset_state s2"
  by (cases s1, cases s2) (simp add: reset_state_def)

text \<open>
  C9. Processing is a function of the document alone: \<open>process_pdf\<close> resets the three
  state attributes first, so the result and the state left behind are the same from any
  two prior states of the extractor, in particular after any other document.
\<close>

theorem C9_result_independent_of_prior_state:
  "process_pdf s1 opened = process_pdf s2 opened \<and>
   process_pdf (snd (process_pdf s1 other)) opened = process_pdf s1 opened"
  using reset_state_const[of s1 s2] reset_state_const[of "snd (process_pdf s1 other)" s1]
  by (simp add: process_pdf_def)

text \<open>
  A document of one page whose second line has a span without the key \<open>"size"\<close>: the
  pre-pass runs to its end, and the feature extraction raises \<open>KeyError\<close> at line 210.
\<close>

definition sized_span :: span where
  "sized_span = \<lparr>sp_text = Some ''Introduction'', sp_size = Some 24,
                   sp_font = Some ''Helvetica-Bold'', sp_flags = Some 1, sp_color = Some 0\<rparr>"

definition unsized_span :: span where
  "unsized_span = \<lparr>sp_text = Some ''Scope'', sp_size = None,
                     sp_font = Some ''Helvetica'', sp_flags = Some 0, sp_color = Some 0\<rparr>"

definition missing_size_doc :: document where
  "missing_size_doc =
     [\<lparr>pg_width = 595, pg_height = 842,
       pg_blocks = [\<lparr>bl_bbox = (72, 100, 200, 160),
                     bl_lines = Some [\<lparr>ll_bbox = (72, 100, 200, 124), ll_spans = [sized_span]\<rparr>,
                                      \<lparr>ll_bbox = (72, 140, 200, 160),
                                       ll_spans = [unsized_span]\<rparr>]\<rparr>]\<rparr>]"

lemma missing_size_pre_process:
  "pre_process_for_hf_detection (reset_state initial_extractor) missing_size_doc =
     (\<lparr>hf_candidates = Map.empty, total_pages_in_doc = 1,
       page_dimensions = [0 \<mapsto> (595, 842)]\<rparr>, None)"
  by (simp add: pre_process_for_hf_detection_def reset_state_def initial_extractor_def
      missing_size_doc_def hf_count_page_def hf_count_block_def hf_count_line_def
      line_text_of_def sized_span_def unsized_span_def strip_def chr_defs rect_defs
      HF_TOP_ZONE_PERCENTAGE_def HF_BOTTOM_ZONE_PERCENTAGE_def Let_def)

lemma missing_size_extraction:
  "extract_text_lines_with_features st missing_size_doc = Inl KeyError"
  by (simp add: extract_text_lines_with_features_def avg_doc_font_size_of_def
      all_doc_font_sizes_def missing_size_doc_def sized_span_def unsized_span_def)

text \<open>
  C7. When \<open>fitz.open\<close> raises, or the pre-pass raises, or the feature extraction
  (with the scoring) raises after the pre-pass has run, \<open>process_pdf\<close> returns exactly
  the placeholder result: the title \<open>Document\<close> and an empty outline.
\<close>

theorem C7_failure_yields_placeholder:
  assumes "opened = Inl e \<or>
           (\<exists>doc. opened = Inr doc \<and>
              (snd (pre_process_for_hf_detection (reset_state st) doc) = Some e \<or>
               snd (pre_process_for_hf_detection (reset_state st) doc) = None \<and>
               extract_text_lines_with_features
                 (fst (pre_process_for_hf_detection (reset_state st) doc)) doc = Inl e))"
  shows "fst (process_pdf st opened) = \<lparr>title = ''Document'', outline = []\<rparr>"
  using assms
  by (auto simp: process_pdf_def run_pipeline_def placeholder_def split: prod.splits sum.splits
      option.splits)

theorem C7_failure_yields_placeholder_witness:
  "snd (pre_process_for_hf_detection (reset_state initial_extractor) missing_size_doc) = None \<and>
   total_pages_in_doc
     (fst (pre_process_for_hf_detection (reset_state initial_extractor) missing_size_doc)) = 1 \<and>
   extract_text_lines_with_features
     (fst (pre_process_for_hf_detection (reset_state initial_extractor) missing_size_doc))
     missing_size_doc = Inl KeyError \<and>
   fst (process_pdf initial_extractor (Inr missing_size_doc)) =
     \<lparr>title = ''Document'', outline = []\<rparr>"
  using C7_failure_yields_placeholder[of "Inr missing_size_doc" KeyError initial_extractor]
  by (simp add: missing_size_pre_process missing_size_extraction)

subsection \<open>The cap of the selector and the order of the outline\<close>






lemma merged_headings_of_Nil: "merged_headings_of [] = []"
  by (simp add: merged_headings_of_def select_headings_def heading_candidates_spatial_sort_def
      heading_candidates_def merge_multiline_headings_def)

lemma outline_result_of_lines:
  "outline (result_of_lines st ls) =
     map (outline_entry_of st (merged_headings_of ls) (analyze_font_statistics ls))
         (merged_headings_of ls)"
  by (simp add: result_of_lines_def placeholder_def merged_headings_of_Nil Let_def)

lemma process_pdf_cases:
  "\<exists>st1 ls. fst (process_pdf st opened) = result_of_lines st1 ls"
proof (cases opened)
  case (Inl e)
  then have "fst (process_pdf st opened) = result_of_lines st []"
    by (simp add: process_pdf_def result_of_lines_def)
  then show ?thesis by blast
next
  case (Inr doc)
  obtain st1 err where pre: "pre_process_for_hf_detection (reset_state st) doc = (st1, err)"
    by (cases "pre_process_for_hf_detection (reset_state st) doc")
  show ?thesis
  proof (cases err)
    case (Some e)
    then have "fst (process_pdf st opened) = result_of_lines st []"
      using Inr pre by (simp add: process_pdf_def run_pipeline_def result_of_lines_def)
    then show ?thesis by blast
  next
    case None
    show ?thesis
    proof (cases "extract_text_lines_with_features st1 doc")
      case (Inl e)
      then have "fst (process_pdf st opened) = result_of_lines st []"
        using Inr pre None by (simp add: process_pdf_def run_pipeline_def result_of_lines_def)
      then show ?thesis by blast
    next
      case Inr2: (Inr ls)
      then have "fst (process_pdf st opened) = result_of_lines st1 ls"
        using Inr pre None by (simp add: process_pdf_def run_pipeline_def)
      then show ?thesis by blast
    qed
  qed
qed

lemma sorted_merged_headings_of:
  "sorted (map (\<lambda>h. (page h, y0 (bbox h))) (merged_headings_of ls))"
  by (simp add: merged_headings_of_def)

lemma sorted_fst_of_pairs:
  "sorted (map (\<lambda>h. (f h, g h)) hs) \<Longrightarrow> sorted (map f hs)"
  by (induction hs) (auto simp: less_eq_prod_def)

lemma sorted_minus_one:
  "sorted (map f xs) \<Longrightarrow> sorted (map (\<lambda>x. f x - (1::int)) xs)"
  by (induction xs) auto

lemma sorted_pages_result_of_lines: "sorted (map oe_page (outline (result_of_lines st ls)))"
proof -
  have "sorted (map page (merged_headings_of ls))"
    using sorted_merged_headings_of[of ls] by (rule sorted_fst_of_pairs)
  then have "sorted (map (\<lambda>h. page h - 1) (merged_headings_of ls))"
    by (rule sorted_minus_one)
  then show ?thesis
    by (simp add: outline_result_of_lines outline_entry_of_def comp_def)
qed

text \<open>
  C8. The outline is the list of merged headings in non-decreasing
  \<open>(page, top y of the merged box)\<close> order, entry by entry; the result of \<open>process_pdf\<close>
  is always built this way (from no lines when it is the placeholder), so the pages of
  its outline never decrease.
\<close>

theorem C8_outline_in_spatial_order:
  "outline (result_of_lines st ls) =
     map (outline_entry_of st (merged_headings_of ls) (analyze_font_statistics ls))
         (merged_headings_of ls) \<and>
   sorted (map (\<lambda>h. (page h, y0 (bbox h))) (merged_headings_of ls)) \<and>
   (\<exists>st1 ls1. fst (process_pdf st' opened) = result_of_lines st1 ls1) \<and>
   sorted (map oe_page (outline (fst (process_pdf st' opened))))"
proof -
  obtain st1 ls1 where "fst (process_pdf st' opened) = result_of_lines st1 ls1"
    using process_pdf_cases by blast
  then show ?thesis
    using outline_result_of_lines sorted_merged_headings_of sorted_pages_result_of_lines
    by metis
qed








subsection \<open>More than 150 raw candidates\<close>

text \<open>
  The line \<open>Chapter One\<close>, 24 pt bold, at the same place of pages 1 to 151 of a
  document with a mean font size of 12 pt: the features the extractor builds for the
  line of page \<open>i + 1\<close>, and the line with its score.
\<close>

definition chapter_features :: "nat \<Rightarrow> line" where
  "chapter_features i = line_features ''Chapter One'' i (72, 100, 300, 130)
       [\<lparr>sp_text = Some ''Chapter One'', sp_size = Some 24, sp_font = Some ''Helvetica-Bold'',
         sp_flags = Some 1, sp_color = Some 0\<rparr>] 12 0 i"



lemma chapter_features_simps:
  "ltext (chapter_features i) = ''Chapter One''"
  "page (chapter_features i) = int i + 1"
  "font_size (chapter_features i) = 24"
  "is_bold (chapter_features i)"
  "bbox (chapter_features i) = (72, 100, 300, 130)"
  "x_pos (chapter_features i) = 72"
  "y_pos (chapter_features i) = 100"
  "color (chapter_features i) = 0"
  "whitespace_above (chapter_features i) = 100"
  "whitespace_below (chapter_features i) = None"
  "word_count (chapter_features i) = 2"
  "\<not> ends_with_period (chapter_features i)"
  "\<not> ends_with_colon (chapter_features i)"
  by (simp_all add: chapter_features_def line_features_def is_bold_flags_def endswith_def
      strip_def split_def chr_defs rect_defs round2_def round_half_even_def Let_def)

lemma chapter_features_enum: "\<not> has_enum (chapter_features i)"
  by (simp add: chapter_features_def line_features_def enum_pattern_def re_match_def rx_defs
      chr_defs)

lemma chapter_features_cue: "has_cue (chapter_features i)"
  by (simp add: chapter_features_def line_features_def heading_keywords_def chr_defs)

lemma chapter_features_cap: "cap_ratio (chapter_features i) = 18 / 100"
  by (simp add: chapter_features_def line_features_def cap_ratio_of_def round2_def
      round_half_even_def Let_def chr_defs)

lemma chapter_pattern: "list_ex (\<lambda>p. re_match p ''Chapter One'') heading_patterns"
  by (simp add: heading_patterns_def heading_tail_def re_match_def rx_defs chr_defs)

lemma chapter_istitle: "istitle ''Chapter One''"
  by (simp add: istitle_def chr_defs)

text \<open>The score given to \<open>chapter_line i\<close> is the one the scorer computes.\<close>

lemma chapter_line_is_scored:
  "calculate_heading_score initial_extractor (chapter_features i) 12 =
     Inr (if i = 0 then 212 else 187)"
  by (simp add: calculate_heading_score_def font_component_def bold_component_def
      italic_component_def pattern_component_def enum_component_def cue_component_def
      whitespace_component_def left_component_def center_component_def
      word_count_component_def capitalization_component_def ending_component_def
      first_page_component_def color_component_def chapter_features_simps
      chapter_features_enum chapter_features_cue chapter_features_cap chapter_pattern
      chapter_istitle page_width_of_def get_page_dims_def initial_extractor_def rect_defs
      MIN_HEADING_FONT_SIZE_RATIO_def MAX_HEADING_WORD_COUNT_def)










subsection \<open>More than 150 distinct candidates\<close>















subsection \<open>The repetition rule on a document of two pages\<close>

text \<open>
  A document of two pages in two columns: on each page the running header
  \<open>Quarterly Report\<close> stands above each column, at the same height in the top zone.
\<close>

definition header_span :: span where
  "header_span = \<lparr>sp_text = Some ''Quarterly Report'', sp_size = Some 9,
                   sp_font = Some ''Helvetica'', sp_flags = Some 0, sp_color = Some 0\<rparr>"

definition two_column_page :: pdf_page where
  "two_column_page =
     \<lparr>pg_width = 595, pg_height = 842,
      pg_blocks = [\<lparr>bl_bbox = (72, 10, 468, 22),
                    bl_lines = Some [\<lparr>ll_bbox = (72, 10, 200, 22), ll_spans = [header_span]\<rparr>,
                                     \<lparr>ll_bbox = (340, 10, 468, 22), ll_spans = [header_span]\<rparr>]\<rparr>]\<rparr>"

definition two_page_doc :: document where
  "two_page_doc = [two_column_page, two_column_page]"

lemma normalize_quarterly:
  "normalize_text_for_hf_comparison ''Quarterly Report'' = ''quarterly report''"
  by (simp add: normalize_text_for_hf_comparison_def strip_def page_suffix_rx_def date_rx_def
      hash_rx_unfold hex_digit_rx_def rx_defs chr_defs Let_def)


text \<open>The extractor after the pre-pass over this document.\<close>

definition scanned_extractor :: extractor where
  "scanned_extractor =
     fst (pre_process_for_hf_detection (reset_state initial_extractor) two_page_doc)"

lemma header_line_text:
  "line_text_of \<lparr>ll_bbox = b, ll_spans = [header_span]\<rparr> = Inr ''Quarterly Report''"
  by (simp add: line_text_of_def header_span_def strip_def chr_defs)

lemma scanned_extractor_eq:
  "scanned_extractor =
     \<lparr>hf_candidates = [(''quarterly report'', 10, True) \<mapsto> 4],
      total_pages_in_doc = 2,
      page_dimensions = [0 \<mapsto> (595, 842), 1 \<mapsto> (595, 842)]\<rparr>"
  by (simp add: scanned_extractor_def pre_process_for_hf_detection_def reset_state_def
      initial_extractor_def two_page_doc_def two_column_page_def hf_count_page_def
      hf_count_block_def hf_count_line_def header_line_text normalize_quarterly
      y_bucket_of_def py_int_def rect_defs HF_TOP_ZONE_PERCENTAGE_def
      HF_BOTTOM_ZONE_PERCENTAGE_def Let_def eval_nat_numeral)

lemma quarterly_not_non_content: "\<not> non_content ''quarterly report''"
  by (simp add: non_content_def NON_CONTENT_PATTERNS_def rx_defs chr_defs)


lemma two_page_avg: "avg_doc_font_size_of two_page_doc = Inr 9"
  by (simp add: avg_doc_font_size_of_def all_doc_font_sizes_def two_page_doc_def
      two_column_page_def header_span_def mean_def)

lemma two_page_extraction:
  "extract_text_lines_with_features scanned_extractor two_page_doc = Inr []"
proof -
  have red: "is_redundant_line scanned_extractor ''Quarterly Report'' 10 22 n" if "n < 2" for n
  proof -
    have low: "lower (strip ''Quarterly Report'') = ''quarterly report''"
      by (simp add: strip_def chr_defs)
    have len: "length (strip ''Quarterly Report'') = 16"
      by (simp add: strip_def chr_defs)
    have ne: "\<not> list_ex (\<lambda>p. re_search p ''quarterly report'') NON_CONTENT_PATTERNS"
      using quarterly_not_non_content by (simp add: non_content_def)
    from that have "n = 0 \<or> n = 1" by auto
    then show ?thesis
      by (auto simp: scanned_extractor_eq is_redundant_line_def low len ne
          normalize_quarterly y_bucket_of_def py_int_def
          HF_TOP_ZONE_PERCENTAGE_def HF_BOTTOM_ZONE_PERCENTAGE_def
          HF_MIN_PAGES_FOR_REPETITION_def HF_REPETITION_THRESHOLD_PERCENT_def Let_def)
  qed
  show ?thesis
    by (simp add: extract_text_lines_with_features_def two_page_avg)
       (simp add: two_page_doc_def two_column_page_def extract_page_def extract_block_def
        extract_line_def header_line_text red rect_defs)
qed

text \<open>
  C3 (fails on the code). The claim: in a document with fewer than 3 pages no census key
  reaches a count of 3, so the repetition rule drops no line. The census counts line
  occurrences, not pages: on the two pages above the key of the header is counted four
  times, 4 \<ge> 3 and 4 / 2 \<ge> 0.75, and the repetition rule drops the header lines
  (rules 1 and 2 do not apply to them: without the census the line is kept). No line
  of the document survives.
\<close>

theorem C3_two_page_header_dropped_by_repetition_rule:
  "length two_page_doc = 2 \<and>
   total_pages_in_doc scanned_extractor = 2 \<and>
   hf_candidates scanned_extractor (''quarterly report'', 10, True) = Some 4 \<and>
   \<not> non_content (lower (strip ''Quarterly Report'')) \<and>
   \<not> length (strip ''Quarterly Report'') < 5 \<and>
   is_redundant_line scanned_extractor ''Quarterly Report'' 10 22 0 \<and>
   \<not> is_redundant_line (scanned_extractor\<lparr>hf_candidates := Map.empty\<rparr>)
        ''Quarterly Report'' 10 22 0 \<and>
   extract_text_lines_with_features scanned_extractor two_page_doc = Inr []"
proof -
  have low: "lower (strip ''Quarterly Report'') = ''quarterly report''"
    by (simp add: strip_def chr_defs)
  have len: "length (strip ''Quarterly Report'') = 16"
    by (simp add: strip_def chr_defs)
  have ne: "\<not> list_ex (\<lambda>p. re_search p ''quarterly report'') NON_CONTENT_PATTERNS"
    using quarterly_not_non_content by (simp add: non_content_def)
  show ?thesis
    by (simp add: two_page_extraction)
       (simp add: two_page_doc_def scanned_extractor_eq is_redundant_line_def low len ne
        quarterly_not_non_content normalize_quarterly y_bucket_of_def py_int_def
        HF_TOP_ZONE_PERCENTAGE_def HF_BOTTOM_ZONE_PERCENTAGE_def
        HF_MIN_PAGES_FOR_REPETITION_def HF_REPETITION_THRESHOLD_PERCENT_def Let_def)
qed

subsection \<open>The whitespace component of the scorer\<close>

lemma foldM_invariant:
  assumes step: "\<And>s x s'. I s \<Longrightarrow> f s x = Inr s' \<Longrightarrow> I s'"
    and init: "I s" and run: "foldM f s xs = Inr s'"
  shows "I s'"
  using init run
proof (induction xs arbitrary: s)
  case Nil
  then show ?case by simp
next
  case (Cons x xs)
  then show ?case
    by (cases "f s x") (auto intro: step)
qed

definition no_whitespace_below :: "extract_state \<Rightarrow> bool" where
  "no_whitespace_below acc = list_all (\<lambda>l. whitespace_below l = None) (snd (snd acc))"

lemma extract_line_no_whitespace_below:
  "no_whitespace_below acc \<Longrightarrow> extract_line st avg page_num acc ll = Inr acc' \<Longrightarrow>
   no_whitespace_below acc'"
  by (cases acc)
     (auto simp: extract_line_def no_whitespace_below_def line_features_def Let_def
           split: if_splits sum.splits)

lemma extract_block_no_whitespace_below:
  "no_whitespace_below acc \<Longrightarrow> extract_block st avg page_num acc b = Inr acc' \<Longrightarrow>
   no_whitespace_below acc'"
  unfolding extract_block_def
  by (cases "bl_lines b")
     (auto elim: foldM_invariant[where I = no_whitespace_below, rotated 2]
           intro: extract_line_no_whitespace_below)

lemma extract_page_no_whitespace_below:
  "no_whitespace_below acc \<Longrightarrow> extract_page st avg acc np = Inr acc' \<Longrightarrow>
   no_whitespace_below acc'"
  unfolding extract_page_def
  by (cases np)
     (auto elim: foldM_invariant[where I = no_whitespace_below, rotated 2]
           intro: extract_block_no_whitespace_below)

lemma extracted_no_whitespace_below:
  assumes "extract_text_lines_with_features st doc = Inr ls"
  shows "list_all (\<lambda>l. whitespace_below l = None) ls"
proof -
  obtain avg acc where run: "foldM (extract_page st avg) ((\<lambda>_. 0), 0, [])
                               (enumerate 0 doc) = Inr acc" and ls: "ls = snd (snd acc)"
    using assms by (auto simp: extract_text_lines_with_features_def split: sum.splits)
  have "no_whitespace_below ((\<lambda>_. 0), 0, [])"
    by (simp add: no_whitespace_below_def)
  then have "no_whitespace_below acc"
    using run by (rule foldM_invariant[rotated 1]) (rule extract_page_no_whitespace_below)
  then show ?thesis
    by (simp add: no_whitespace_below_def ls)
qed

lemma select_loop_subset:
  "set (select_loop final seen lb lp cs) \<subseteq> set final \<union> set cs"
proof (induction cs arbitrary: final seen lb lp)
  case Nil
  show ?case by simp
next
  case (Cons c cs)
  have skip: "set (select_loop final seen lb lp cs) \<subseteq> set final \<union> set (c # cs)"
    using Cons.IH[of final seen lb lp] by auto
  have take: "set (select_loop (final @ [c]) s' lb' lp' cs) \<subseteq> set final \<union> set (c # cs)"
    for s' lb' lp'
    using Cons.IH[of "final @ [c]" s' lb' lp'] by auto
  show ?case
  proof (cases "length (norm_text_of c) < 5 \<or> norm_text_of c \<in> set seen \<or>
                close_duplicate final lb lp c")
    case True
    then have "select_loop final seen lb lp (c # cs) = select_loop final seen lb lp cs"
      by (auto simp: Let_def)
    then show ?thesis using skip by simp
  next
    case False
    show ?thesis
    proof (cases "150 \<le> Suc (length final)")
      case True
      then have "select_loop final seen lb lp (c # cs) = final @ [c]"
        using False by (simp add: Let_def)
      then show ?thesis by auto
    next
      case False2: False
      then have "select_loop final seen lb lp (c # cs) =
                 select_loop (final @ [c]) (norm_text_of c # seen) (Some (bbox c)) (page c) cs"
        using False by (simp add: Let_def)
      then show ?thesis using take by simp
    qed
  qed
qed

lemma merge_into_whitespace_below [simp]:
  "whitespace_below (merge_into cur nxt) = whitespace_below cur"
  by (simp add: merge_into_def Let_def)

lemma merge_loop_no_whitespace_below:
  "whitespace_below c = None \<Longrightarrow> list_all (\<lambda>l. whitespace_below l = None) xs \<Longrightarrow>
   list_all (\<lambda>l. whitespace_below l = None) (merge_loop c xs)"
  by (induction xs arbitrary: c) auto

lemma merged_no_whitespace_below:
  assumes "list_all (\<lambda>l. whitespace_below l = None) ls"
  shows "list_all (\<lambda>l. whitespace_below l = None) (merged_headings_of ls)"
proof -
  have "set (select_headings ls) \<subseteq> set ls"
    using select_loop_subset[of "[]" "[]" None "- 1" "heading_candidates_spatial_sort ls"]
    by (auto simp: select_headings_def heading_candidates_spatial_sort_def
        heading_candidates_def)
  then have sel: "list_all (\<lambda>l. whitespace_below l = None) (select_headings ls)"
    using assms by (auto simp: list_all_iff)
  have "list_all (\<lambda>l. whitespace_below l = None) (merge_multiline_headings (select_headings ls))"
  proof (cases "sort_key (\<lambda>h. (page h, y0 (bbox h))) (select_headings ls)")
    case Nil
    then show ?thesis by (simp add: merge_multiline_headings_def)
  next
    case (Cons h hs)
    then have "set (h # hs) = set (select_headings ls)"
      by (metis set_sort)
    then have "whitespace_below h = None" "list_all (\<lambda>l. whitespace_below l = None) hs"
      using sel by (auto simp: list_all_iff)
    then show ?thesis
      using Cons by (simp add: merge_multiline_headings_def merge_loop_no_whitespace_below)
  qed
  then show ?thesis
    by (simp add: merged_headings_of_def list_all_iff)
qed


text \<open>
  C10. Every line the feature extractor returns, and every merged heading built from
  such lines, has no \<open>whitespace_below\<close> key, so the whitespace component of the scorer
  is decided by \<open>whitespace_above\<close> alone against 2.5, 1.5 and 0.8 times the mean size.
\<close>

theorem C10_whitespace_component_from_whitespace_above:
  assumes "extract_text_lines_with_features st doc = Inr ls"
    and "l \<in> set ls \<or> l \<in> set (merged_headings_of ls)"
  shows "whitespace_below l = None \<and>
         whitespace_component l avg =
           (if whitespace_above l > avg * (25 / 10) then 15
            else if whitespace_above l > avg * (15 / 10) then 10
            else if whitespace_above l > avg * (8 / 10) then 5 else 0)"
proof -
  have all: "list_all (\<lambda>l. whitespace_below l = None) ls"
    using assms(1) by (rule extracted_no_whitespace_below)
  have "whitespace_below l = None"
    using assms(2) all merged_no_whitespace_below[OF all] by (auto simp: list_all_iff)
  then show ?thesis
    by (simp add: whitespace_component_def)
qed

text \<open>
  A document of one page with the single line \<open>Introduction\<close>, 24 pt bold, the
  extractor after its pre-pass, and the line the feature extractor builds.
\<close>

definition intro_span :: span where
  "intro_span = \<lparr>sp_text = Some ''Introduction'', sp_size = Some 24,
                  sp_font = Some ''Helvetica-Bold'', sp_flags = Some 1, sp_color = Some 0\<rparr>"

definition one_line_doc :: document where
  "one_line_doc =
     [\<lparr>pg_width = 595, pg_height = 842,
       pg_blocks = [\<lparr>bl_bbox = (72, 100, 200, 124),
                     bl_lines = Some [\<lparr>ll_bbox = (72, 100, 200, 124),
                                       ll_spans = [intro_span]\<rparr>]\<rparr>]\<rparr>]"

definition one_line_extractor :: extractor where
  "one_line_extractor =
     \<lparr>hf_candidates = Map.empty, total_pages_in_doc = 1,
      page_dimensions = [0 \<mapsto> (595, 842)]\<rparr>"

definition heading_features :: line where
  "heading_features = line_features ''Introduction'' 0 (72, 100, 200, 124) [intro_span] 24 0 0"

definition heading_line :: line where
  "heading_line = heading_features\<lparr>heading_score := Some 106\<rparr>"

lemma one_line_pre_process:
  "pre_process_for_hf_detection (reset_state initial_extractor) one_line_doc =
     (one_line_extractor, None)"
  by (simp add: pre_process_for_hf_detection_def reset_state_def initial_extractor_def
      one_line_doc_def one_line_extractor_def hf_count_page_def hf_count_block_def
      hf_count_line_def line_text_of_def intro_span_def strip_def chr_defs rect_defs
      HF_TOP_ZONE_PERCENTAGE_def HF_BOTTOM_ZONE_PERCENTAGE_def Let_def)

lemma intro_text:
  "line_text_of \<lparr>ll_bbox = b, ll_spans = [intro_span]\<rparr> = Inr ''Introduction''"
  by (simp add: line_text_of_def intro_span_def strip_def chr_defs)

lemma intro_not_non_content: "\<not> list_ex (\<lambda>p. re_search p ''introduction'') NON_CONTENT_PATTERNS"
  by (simp add: NON_CONTENT_PATTERNS_def rx_defs chr_defs)

lemma intro_normalized: "normalize_text_for_hf_comparison ''Introduction'' = ''introduction''"
  by (simp add: normalize_text_for_hf_comparison_def strip_def page_suffix_rx_def date_rx_def
      hash_rx_unfold hex_digit_rx_def rx_defs chr_defs Let_def)

lemma intro_not_redundant:
  "\<not> is_redundant_line one_line_extractor ''Introduction'' 100 124 0"
proof -
  have low: "lower (strip ''Introduction'') = ''introduction''"
    by (simp add: strip_def chr_defs)
  have len: "length (strip ''Introduction'') = 12"
    by (simp add: strip_def chr_defs)
  show ?thesis
    by (simp add: is_redundant_line_def one_line_extractor_def low len intro_not_non_content
        intro_normalized y_bucket_of_def py_int_def Let_def)
qed

lemma heading_features_simps:
  "ltext heading_features = ''Introduction''"
  "page heading_features = 1"
  "font_size heading_features = 24"
  "is_bold heading_features"
  "bbox heading_features = (72, 100, 200, 124)"
  "x_pos heading_features = 72"
  "y_pos heading_features = 100"
  "color heading_features = 0"
  "whitespace_above heading_features = 100"
  "whitespace_below heading_features = None"
  "word_count heading_features = 1"
  "\<not> ends_with_period heading_features"
  "\<not> ends_with_colon heading_features"
  by (simp_all add: heading_features_def line_features_def intro_span_def is_bold_flags_def
      endswith_def strip_def split_def chr_defs rect_defs round2_def round_half_even_def Let_def)

lemma heading_features_enum: "\<not> has_enum heading_features"
  by (simp add: heading_features_def line_features_def enum_pattern_def re_match_def rx_defs
      chr_defs Let_def)

lemma heading_features_cue: "has_cue heading_features"
  by (simp add: heading_features_def line_features_def heading_keywords_def chr_defs Let_def)

lemma heading_features_cap: "cap_ratio heading_features = 8 / 100"
  by (simp add: heading_features_def line_features_def cap_ratio_of_def round2_def
      round_half_even_def Let_def chr_defs)

lemma intro_pattern: "list_ex (\<lambda>p. re_match p ''Introduction'') heading_patterns"
  by (simp add: heading_patterns_def heading_tail_def re_match_def rx_defs chr_defs)

lemma intro_istitle: "istitle ''Introduction''"
  by (simp add: istitle_def chr_defs)

lemma heading_features_score:
  "calculate_heading_score one_line_extractor heading_features 24 = Inr 106"
  by (simp add: calculate_heading_score_def font_component_def bold_component_def
      italic_component_def pattern_component_def enum_component_def cue_component_def
      whitespace_component_def left_component_def center_component_def
      word_count_component_def capitalization_component_def ending_component_def
      first_page_component_def color_component_def heading_features_simps
      heading_features_enum heading_features_cue heading_features_cap intro_pattern
      intro_istitle page_width_of_def get_page_dims_def one_line_extractor_def rect_defs
      MIN_HEADING_FONT_SIZE_RATIO_def MAX_HEADING_WORD_COUNT_def)

lemma one_line_avg: "avg_doc_font_size_of one_line_doc = Inr 24"
  by (simp add: avg_doc_font_size_of_def all_doc_font_sizes_def one_line_doc_def
      intro_span_def mean_def)

lemma one_line_extraction:
  "extract_text_lines_with_features one_line_extractor one_line_doc = Inr [heading_line]"
  by (simp add: extract_text_lines_with_features_def one_line_avg)
     (simp add: one_line_doc_def extract_page_def extract_block_def extract_line_def
      intro_text intro_not_redundant rect_defs heading_features_def[symmetric]
      heading_features_score heading_line_def)


theorem C10_whitespace_component_witness:
  "extract_text_lines_with_features one_line_extractor one_line_doc = Inr [heading_line] \<and>
   whitespace_above heading_line = 100 \<and>
   whitespace_below heading_line = None \<and>
   whitespace_component heading_line 24 = 15"
  using C10_whitespace_component_from_whitespace_above
          [of one_line_extractor one_line_doc "[heading_line]" heading_line 24]
        one_line_extraction
  by (simp add: heading_line_def heading_features_simps)

subsection \<open>Levels of numbered headings\<close>












text \<open>
  A heading \<open>1. Introduction\<close> (24 pt bold, the left edge at \<open>x\<close>) and a heading
  \<open>1.1 Background\<close> (18 pt bold, the left edge at 72) on the first page of a document
  with a mean font size of 12 pt and no recorded page size (the page width is then taken
  as 595): the features the extractor builds, and the lines with the scores the scorer
  gives them, for \<open>x = 200\<close> and \<open>x = 72\<close>.
\<close>

definition dotted_features :: "rat \<Rightarrow> line" where
  "dotted_features x = line_features ''1. Introduction'' 0 (x, 100, x + 200, 130)
       [\<lparr>sp_text = Some ''1. Introduction'', sp_size = Some 24,
         sp_font = Some ''Helvetica-Bold'', sp_flags = Some 1, sp_color = Some 0\<rparr>] 12 0 0"

definition sub_features :: line where
  "sub_features = line_features ''1.1 Background'' 0 (72, 300, 272, 320)
       [\<lparr>sp_text = Some ''1.1 Background'', sp_size = Some 18,
         sp_font = Some ''Helvetica-Bold'', sp_flags = Some 1, sp_color = Some 0\<rparr>] 12 130 1"




lemma dotted_features_simps:
  "ltext (dotted_features x) = ''1. Introduction''"
  "page (dotted_features x) = 1"
  "font_size (dotted_features x) = 24"
  "is_bold (dotted_features x)"
  "bbox (dotted_features x) = (x, 100, x + 200, 130)"
  "x_pos (dotted_features x) = x"
  "y_pos (dotted_features x) = 100"
  "color (dotted_features x) = 0"
  "whitespace_above (dotted_features x) = 100"
  "whitespace_below (dotted_features x) = None"
  "word_count (dotted_features x) = 2"
  "\<not> ends_with_period (dotted_features x)"
  "\<not> ends_with_colon (dotted_features x)"
  by (simp_all add: dotted_features_def line_features_def is_bold_flags_def endswith_def
      strip_def split_def chr_defs rect_defs round2_def round_half_even_def Let_def)

lemma sub_features_simps:
  "ltext sub_features = ''1.1 Background''"
  "page sub_features = 1"
  "font_size sub_features = 18"
  "is_bold sub_features"
  "bbox sub_features = (72, 300, 272, 320)"
  "x_pos sub_features = 72"
  "y_pos sub_features = 300"
  "color sub_features = 0"
  "whitespace_above sub_features = 170"
  "whitespace_below sub_features = None"
  "word_count sub_features = 2"
  "\<not> ends_with_period sub_features"
  "\<not> ends_with_colon sub_features"
  by (simp_all add: sub_features_def line_features_def is_bold_flags_def endswith_def
      strip_def split_def chr_defs rect_defs round2_def round_half_even_def Let_def)

lemma dotted_features_enum: "has_enum (dotted_features x)"
  by (simp add: dotted_features_def line_features_def enum_pattern_def re_match_def rx_defs
      chr_defs Let_def)

lemma dotted_features_cue: "has_cue (dotted_features x)"
  by (simp add: dotted_features_def line_features_def heading_keywords_def chr_defs Let_def)

lemma dotted_features_cap: "cap_ratio (dotted_features x) = 7 / 100"
  by (simp add: dotted_features_def line_features_def cap_ratio_of_def round2_def
      round_half_even_def Let_def chr_defs)

lemma dotted_pattern: "list_ex (\<lambda>p. re_match p ''1. Introduction'') heading_patterns"
  by (simp add: heading_patterns_def heading_tail_def re_match_def rx_defs chr_defs)

lemma dotted_istitle: "istitle ''1. Introduction''"
  by (simp add: istitle_def chr_defs)

lemma sub_features_enum: "has_enum sub_features"
  by (simp add: sub_features_def line_features_def enum_pattern_def re_match_def rx_defs
      chr_defs Let_def)

lemma sub_features_cue: "has_cue sub_features"
  by (simp add: sub_features_def line_features_def heading_keywords_def chr_defs Let_def)

lemma sub_features_cap: "cap_ratio sub_features = 7 / 100"
  by (simp add: sub_features_def line_features_def cap_ratio_of_def round2_def
      round_half_even_def Let_def chr_defs)

lemma sub_pattern: "list_ex (\<lambda>p. re_match p ''1.1 Background'') heading_patterns"
  by (simp add: heading_patterns_def heading_tail_def re_match_def rx_defs chr_defs)

lemma sub_istitle: "istitle ''1.1 Background''"
  by (simp add: istitle_def chr_defs)

lemmas score_defs = calculate_heading_score_def font_component_def bold_component_def
  italic_component_def pattern_component_def enum_component_def cue_component_def
  whitespace_component_def left_component_def center_component_def
  word_count_component_def capitalization_component_def ending_component_def
  first_page_component_def color_component_def page_width_of_def get_page_dims_def
  initial_extractor_def rect_defs MIN_HEADING_FONT_SIZE_RATIO_def MAX_HEADING_WORD_COUNT_def

lemma dotted_lines_are_scored:
  "calculate_heading_score initial_extractor (dotted_features 200) 12 = Inr 249"
  "calculate_heading_score initial_extractor (dotted_features 72) 12 = Inr 247"
  by (simp_all add: score_defs dotted_features_simps dotted_features_enum dotted_features_cue
      dotted_features_cap dotted_pattern dotted_istitle)

lemma sub_line_is_scored:
  "calculate_heading_score initial_extractor sub_features 12 = Inr 207"
  by (simp add: score_defs sub_features_simps sub_features_enum sub_features_cue
      sub_features_cap sub_pattern sub_istitle)















end
